theory Spec2Isabelle
  imports Main "HOL-Library.Word"
begin

section \<open>Go values, errors and results\<close>

text \<open>
  Values of Go's \<^verbatim>\<open>error\<close> interface that the two emitters create, compare or
  inspect. Sentinels that the code compares by identity (\<^verbatim>\<open>io.EOF\<close>,
  \<^verbatim>\<open>cmds.ErrClosedEmitter\<close>, the two context errors) are constructors of their own;
  \<^verbatim>\<open>errors.New(msg)\<close> is \<open>ErrorString msg\<close>; \<^verbatim>\<open>cmdkit.Error\<close> occurs as a value
  and behind a pointer, and \<^verbatim>\<open>closeWithError\<close> tells the two apart;
  \<^verbatim>\<open>*os.PathError\<close> carries \<^verbatim>\<open>Op\<close>, \<^verbatim>\<open>Path\<close> and the wrapped \<^verbatim>\<open>Err\<close>. A
  \<^verbatim>\<open>syscall.Errno\<close> is its number; it is given together with the text that the table
  of the platform has for that number, which is what its \<^verbatim>\<open>Error()\<close> returns.
\<close>

datatype error =
    EOF
  | ErrClosedEmitter
  | Canceled
  | DeadlineExceeded
  | ErrorString string
  | CmdkitError string
  | CmdkitErrorPtr string
  | Errno nat string
  | PathError string string error

text \<open>The two \<^verbatim>\<open>syscall.Errno\<close> values that \<^verbatim>\<open>close\<close> names, with their numbers on Linux.\<close>

definition EINVAL :: nat where
  "EINVAL = 22"

definition ENOTSUP :: nat where
  "ENOTSUP = 95"

text \<open>
  What can be passed to \<^verbatim>\<open>Emit(v interface{})\<close>, by the dynamic types the type
  switches of the two emitters distinguish. A channel value is given by the elements it
  yields and the outcome with which it ends; a reader by its bytes and the error a read
  ends with, if any. \<open>Other\<close> stands for every remaining value, given by its printed
  form.
\<close>

datatype val =
    NilV
  | StrV string
  | IntV int
  | StrPtr "string option"
  | IntPtr "int option"
  | Other string
  | Single val
  | Err error
  | Reader string "error option"
  | Chan "val list" "error option"
  | RecvChan "val list" "error option"

text \<open>
  A call returns, panics, or stays blocked in a channel operation.
\<close>

datatype 'a outcome = Ret 'a | Panic string | Blocked

text \<open>
  A \<^verbatim>\<open>select\<close> with a channel case and a \<^verbatim>\<open>ctx.Done()\<close> case: it blocks while
  neither is ready, takes the ready one, and when both are ready takes either; the
  runtime's choice is the argument \<open>pk\<close>.
\<close>

datatype pick = PickComm | PickDone

definition select2 :: "bool \<Rightarrow> bool \<Rightarrow> pick \<Rightarrow> pick option" where
  "select2 comm_ready done_ready pk =
     (if comm_ready \<and> done_ready then Some pk
      else if comm_ready then Some PickComm
      else if done_ready then Some PickDone
      else None)"

section \<open>The in-process stream (chanStream)\<close>

text \<open>
  \<^verbatim>\<open>context.Context\<close>: \<^verbatim>\<open>Err()\<close> is nil until the context is done. The request's
  \<^verbatim>\<open>Context\<close> field is an interface and may be nil.
\<close>

datatype ctx = Live | Done error

datatype request = Request (Context: "ctx option")

text \<open>
  An unbuffered channel. A send completes only together with a receive, so \<open>pending\<close>
  holds the values that a completed send has handed to the receiving side and that the
  receiving call has not returned yet, oldest first; \<open>sends\<close> counts the sends
  completed so far.
\<close>

record 'a chan =
  pending :: "'a list"
  sends :: nat
  chan_closed :: bool

record chanStream =
  req :: "request option"
  ch :: "val chan"
  closed :: bool
  wait :: bool
  err :: "error option"
  lengthS :: "64 word"

text \<open>\<^verbatim>\<open>NewChanResponsePair\<close>: both handles point to this one struct.\<close>

definition NewChanResponsePair :: "request option \<Rightarrow> chanStream" where
  "NewChanResponsePair r =
     \<lparr>req = r, ch = \<lparr>pending = [], sends = 0, chan_closed = False\<rparr>, closed = False,
      wait = False, err = None, lengthS = 0\<rparr>"

text \<open>
  Modelled from the spec: \<^verbatim>\<open>debug.AssertNotError\<close> is not among the sources. It
  detects a value of the deprecated convention, an error-typed value emitted on the
  stream, and crashes; \<open>is_error_value\<close> is that detection.
\<close>

definition is_error_value :: "val \<Rightarrow> bool" where
  "is_error_value v = (case v of Err e \<Rightarrow> True | _ \<Rightarrow> False)"

definition is_Single :: "val \<Rightarrow> bool" where
  "is_Single v = (case v of Single x \<Rightarrow> True | _ \<Rightarrow> False)"

text \<open>
  \<^verbatim>\<open>closeWithError\<close>: sets \<^verbatim>\<open>closed\<close>, records the error (\<^verbatim>\<open>io.EOF\<close> for nil, a
  \<^verbatim>\<open>cmdkit.Error\<close> value behind a pointer), closes \<^verbatim>\<open>ch\<close> and then \<^verbatim>\<open>wait\<close> unless
  it is closed already. Closing a closed channel panics, after the two assignments.
\<close>

definition closeWithError :: "error option \<Rightarrow> chanStream \<Rightarrow> unit outcome \<times> chanStream" where
  "closeWithError e s =
     (let s1 = s\<lparr>closed := True\<rparr>;
          e1 = (case e of None \<Rightarrow> EOF | Some x \<Rightarrow> x);
          e2 = (case e1 of CmdkitError m \<Rightarrow> CmdkitErrorPtr m | _ \<Rightarrow> e1);
          s2 = s1\<lparr>err := Some e2\<rparr>
      in if chan_closed (ch s2) then (Panic ''close of closed channel'', s2)
         else (Ret (), s2\<lparr>ch := (ch s2)\<lparr>chan_closed := True\<rparr>, wait := True\<rparr>))"

definition CloseWithError :: "error option \<Rightarrow> chanStream \<Rightarrow> error option outcome \<times> chanStream" where
  "CloseWithError e s =
     (if closed s then (Ret (Some (ErrorString ''close of closed emitter'')), s)
      else case closeWithError e s of
             (Ret u, s') \<Rightarrow> (Ret None, s')
           | (Panic m, s') \<Rightarrow> (Panic m, s')
           | (Blocked, s') \<Rightarrow> (Blocked, s'))"

definition Close :: "chanStream \<Rightarrow> error option outcome \<times> chanStream" where
  "Close s = CloseWithError None s"

definition SetLength :: "64 word \<Rightarrow> chanStream \<Rightarrow> chanStream" where
  "SetLength l s = (if wait s then s else s\<lparr>lengthS := l\<rparr>)"

text \<open>\<^verbatim>\<open>Length\<close> receives from \<^verbatim>\<open>wait\<close>, which yields only once it is closed.\<close>

definition Length :: "chanStream \<Rightarrow> 64 word outcome" where
  "Length s = (if wait s then Ret (lengthS s) else Blocked)"

text \<open>
  The body of \<^verbatim>\<open>Emit\<close> for a value that is not a channel, from taking the lock to the
  \<^verbatim>\<open>return\<close>; the deferred calls are run by \<open>emit_value\<close> below. \<open>peer\<close> tells
  whether a reader is receiving from \<^verbatim>\<open>ch\<close> while the \<^verbatim>\<open>select\<close> waits. The send
  case is also ready on a closed channel, where it panics. \<^verbatim>\<open>ctx.Done()\<close> on a nil
  request or a nil context is a nil dereference.
\<close>

definition emit_body :: "val \<Rightarrow> bool \<Rightarrow> pick \<Rightarrow> chanStream \<Rightarrow> error option outcome \<times> chanStream" where
  "emit_body v peer pk s =
     (if is_error_value v then (Panic ''AssertNotError'', s)
      else let s1 = s\<lparr>wait := True\<rparr> in
        if closed s1 then (Ret (Some ErrClosedEmitter), s1)
        else case req s1 of
          None \<Rightarrow> (Panic ''nil pointer dereference'', s1)
        | Some r \<Rightarrow>
           (case Context r of
              None \<Rightarrow> (Panic ''nil pointer dereference'', s1)
            | Some c \<Rightarrow>
               (case select2 (peer \<or> chan_closed (ch s1)) (c \<noteq> Live) pk of
                  None \<Rightarrow> (Blocked, s1)
                | Some PickComm \<Rightarrow>
                    if chan_closed (ch s1) then (Panic ''send on closed channel'', s1)
                    else (Ret None, s1\<lparr>ch := (ch s1)\<lparr>pending := pending (ch s1) @ [v],
                                                  sends := Suc (sends (ch s1))\<rparr>\<rparr>)
                | Some PickDone \<Rightarrow>
                    (Ret (case c of Live \<Rightarrow> None | Done e \<Rightarrow> Some e), s1))))"

text \<open>
  \<^verbatim>\<open>Emit\<close> of a value that is not a channel. For a \<^verbatim>\<open>Single\<close> the call
  \<^verbatim>\<open>closeWithError(nil)\<close> is deferred before anything else happens, so it runs when the
  body returns or panics, whatever the body did; a panic of the deferred call replaces
  the return value. While the body is blocked nothing deferred has run.
\<close>

definition emit_value :: "val \<Rightarrow> bool \<Rightarrow> pick \<Rightarrow> chanStream \<Rightarrow> error option outcome \<times> chanStream" where
  "emit_value v peer pk s =
     (case emit_body v peer pk s of
        (Blocked, s1) \<Rightarrow> (Blocked, s1)
      | (r, s1) \<Rightarrow>
          if is_Single v then
            (case closeWithError None s1 of
               (Panic m, s2) \<Rightarrow> (Panic m, s2)
             | (u, s2) \<Rightarrow> (r, s2))
          else (r, s1))"

text \<open>
  Modelled from the spec: \<^verbatim>\<open>EmitChan\<close> is not among the sources. It reads every
  element of the nested stream and emits each one through \<^verbatim>\<open>Emit\<close> again, stops at
  the first failing \<^verbatim>\<open>Emit\<close>, and when the nested stream ends gives its terminal
  outcome as the result. Every element is sent under the same \<open>peer\<close> and \<open>pk\<close>.
\<close>

function (sequential) Emit :: "val \<Rightarrow> bool \<Rightarrow> pick \<Rightarrow> chanStream \<Rightarrow> error option outcome \<times> chanStream"
  and EmitChan :: "val list \<Rightarrow> error option \<Rightarrow> bool \<Rightarrow> pick \<Rightarrow> chanStream \<Rightarrow> error option outcome \<times> chanStream"
where
  "Emit (Chan vs t) peer pk s = EmitChan vs t peer pk s"
| "Emit (RecvChan vs t) peer pk s = EmitChan vs t peer pk s"
| "Emit v peer pk s = emit_value v peer pk s"
| "EmitChan [] t peer pk s = (Ret t, s)"
| "EmitChan (v # vs) t peer pk s =
     (case Emit v peer pk s of
        (Ret None, s') \<Rightarrow> EmitChan vs t peer pk s'
      | (r, s') \<Rightarrow> (r, s'))"
  by pat_completeness auto
termination
  by (relation "measure (\<lambda>x. case x of Inl (v, _) \<Rightarrow> size v | Inr (vs, _) \<Rightarrow> size_list size vs)") auto

text \<open>
  \<^verbatim>\<open>Next\<close> on the response handle, \<open>None\<close> being the nil handle. A value that a
  send has handed over is returned, a \<^verbatim>\<open>Single\<close> unwrapped. Otherwise the \<^verbatim>\<open>select\<close>
  waits for the close of \<^verbatim>\<open>ch\<close>, which yields the recorded error, or for the context,
  where a nil context stands for \<^verbatim>\<open>context.Background()\<close>, which is never done.
\<close>

definition Next :: "pick \<Rightarrow> chanStream option \<Rightarrow> (val \<times> error option) outcome \<times> chanStream option" where
  "Next pk h =
     (case h of
        None \<Rightarrow> (Ret (NilV, Some EOF), None)
      | Some s \<Rightarrow>
         (case req s of
            None \<Rightarrow> (Panic ''nil pointer dereference'', Some s)
          | Some r \<Rightarrow>
             (let c = (case Context r of None \<Rightarrow> Live | Some c' \<Rightarrow> c') in
              case pending (ch s) of
                v # rest \<Rightarrow>
                  (Ret (case v of Single x \<Rightarrow> (x, None) | _ \<Rightarrow> (v, None)),
                   Some (s\<lparr>ch := (ch s)\<lparr>pending := rest\<rparr>\<rparr>))
              | [] \<Rightarrow>
                 (case select2 (chan_closed (ch s)) (c \<noteq> Live) pk of
                    None \<Rightarrow> (Blocked, Some s)
                  | Some PickComm \<Rightarrow> (Ret (NilV, err s), Some s)
                  | Some PickDone \<Rightarrow>
                      (Ret (NilV, case c of Live \<Rightarrow> None | Done e \<Rightarrow> Some e), Some s)))))"


section \<open>The command-line emitter (responseEmitter)\<close>

text \<open>
  An \<^verbatim>\<open>io.Writer\<close> as the emitter uses it: whether its dynamic type is \<^verbatim>\<open>*os.File\<close>,
  the error its \<^verbatim>\<open>Write\<close> returns and the error its \<^verbatim>\<open>Sync\<close> returns (\<open>None\<close> for
  success). What reaches the sinks is recorded in \<open>effects\<close>, in order, because the
  emitter drops its references to them when it closes.
\<close>

record writer =
  is_file :: bool
  write_error :: "error option"
  sync_error :: "error option"

datatype sink = Stdout | Stderr

datatype effect = Write sink string | Sync sink

record responseEmitter =
  stdout :: "writer option"
  stderr :: "writer option"
  length_cli :: "64 word"
  enc :: "(val \<Rightarrow> string \<times> error option) option"
  encType :: string
  exit :: int
  closed_cli :: bool
  ch_cli :: "int chan"
  effects :: "effect list"

text \<open>
  \<^verbatim>\<open>NewResponseEmitter\<close>, given the encoder it builds over \<^verbatim>\<open>stdout\<close> and the
  encoding type of the request.
\<close>

definition NewResponseEmitter ::
  "writer option \<Rightarrow> writer option \<Rightarrow> (val \<Rightarrow> string \<times> error option) option \<Rightarrow> string
     \<Rightarrow> responseEmitter" where
  "NewResponseEmitter out errw e t =
     \<lparr>stdout = out, stderr = errw, length_cli = 0, enc = e, encType = t, exit = 0,
      closed_cli = False, ch_cli = \<lparr>pending = [], sends = 0, chan_closed = False\<rparr>,
      effects = []\<rparr>"

definition SetLength_cli :: "64 word \<Rightarrow> responseEmitter \<Rightarrow> responseEmitter" where
  "SetLength_cli l re = re\<lparr>length_cli := l\<rparr>"

text \<open>\<^verbatim>\<open>SetEncoder\<close>: the new encoder is built over the current \<^verbatim>\<open>stdout\<close>.\<close>

definition SetEncoder_cli ::
  "(writer option \<Rightarrow> (val \<Rightarrow> string \<times> error option) option) \<Rightarrow> responseEmitter \<Rightarrow> responseEmitter" where
  "SetEncoder_cli mk re = re\<lparr>enc := mk (stdout re)\<rparr>"

definition Stdout_cli :: "responseEmitter \<Rightarrow> writer option" where
  "Stdout_cli re = stdout re"

definition Stderr_cli :: "responseEmitter \<Rightarrow> writer option" where
  "Stderr_cli re = stderr re"

definition isClosed :: "responseEmitter \<Rightarrow> bool" where
  "isClosed re = closed_cli re"

text \<open>The text of \<^verbatim>\<open>err.Error()\<close>.\<close>

fun error_message :: "error \<Rightarrow> string" where
  "error_message EOF = ''EOF''"
| "error_message ErrClosedEmitter = ''cmds: emit on closed emitter''"
| "error_message Canceled = ''context canceled''"
| "error_message DeadlineExceeded = ''context deadline exceeded''"
| "error_message (ErrorString m) = m"
| "error_message (CmdkitError m) = m"
| "error_message (CmdkitErrorPtr m) = m"
| "error_message (Errno n txt) = txt"
| "error_message (PathError opn path e) = opn @ '' '' @ path @ '': '' @ error_message e"

text \<open>
  \<^verbatim>\<open>fmt.Fprintln\<close> to one of the two sinks: a nil writer is a nil dereference, a failing
  write returns its error, otherwise the line and a newline reach the sink.
\<close>

definition Fprintln :: "sink \<Rightarrow> writer option \<Rightarrow> string \<Rightarrow> responseEmitter
    \<Rightarrow> error option outcome \<times> responseEmitter" where
  "Fprintln k w line re =
     (case w of
        None \<Rightarrow> (Panic ''nil pointer dereference'', re)
      | Some wr \<Rightarrow>
         (case write_error wr of
            Some e \<Rightarrow> (Ret (Some e), re)
          | None \<Rightarrow> (Ret None, re\<lparr>effects := effects re @ [Write k (line @ [CHR 0x0A])]\<rparr>)))"

text \<open>
  The closure \<^verbatim>\<open>ignoreError\<close> of \<^verbatim>\<open>close\<close>. \<^verbatim>\<open>perr.Err == syscall.EINVAL\<close> holds
  when the wrapped error is an errno of that number.
\<close>

definition ignoreError :: "error \<Rightarrow> bool" where
  "ignoreError e =
     (case e of
        PathError opn path e' \<Rightarrow>
          opn = ''sync'' \<and> (case e' of Errno n txt \<Rightarrow> n = EINVAL \<or> n = ENOTSUP | _ \<Rightarrow> False)
      | _ \<Rightarrow> False)"

text \<open>
  One of the two \<^verbatim>\<open>if f, ok := w.(*os.File); ok\<close> blocks of \<^verbatim>\<open>close\<close>: the result is
  the error with which \<^verbatim>\<open>close\<close> returns at once, if any.
\<close>

definition sync_sink :: "sink \<Rightarrow> writer option \<Rightarrow> responseEmitter \<Rightarrow> error option \<times> responseEmitter" where
  "sync_sink k w re =
     (case w of
        None \<Rightarrow> (None, re)
      | Some wr \<Rightarrow>
          if is_file wr then
            (let re1 = re\<lparr>effects := effects re @ [Sync k]\<rparr> in
             case sync_error wr of
               None \<Rightarrow> (None, re1)
             | Some e \<Rightarrow> if ignoreError e then (None, re1) else (Some e, re1))
          else (None, re))"

text \<open>
  \<^verbatim>\<open>close\<close>. The send of the exit code on the unbuffered \<^verbatim>\<open>ch\<close> waits for a
  receiver (\<open>recv\<close>) and panics on a closed channel. The deferred function is
  registered after the channel is closed and runs at every return of the rest.
\<close>

definition close_cli :: "bool \<Rightarrow> responseEmitter \<Rightarrow> error option outcome \<times> responseEmitter" where
  "close_cli recv re =
     (if closed_cli re then (Ret (Some (ErrorString ''closing closed responseemitter'')), re)
      else if chan_closed (ch_cli re) then (Panic ''send on closed channel'', re)
      else if \<not> recv then (Blocked, re)
      else
        (let re1 = re\<lparr>ch_cli := \<lparr>pending = pending (ch_cli re) @ [exit re],
                                  sends = Suc (sends (ch_cli re)), chan_closed = True\<rparr>\<rparr>;
             (e1, re2) = sync_sink Stderr (stderr re1) re1;
             (r, re3) = (case e1 of
                           Some e \<Rightarrow> (Some e, re2)
                         | None \<Rightarrow> sync_sink Stdout (stdout re2) re2)
         in (Ret r, re3\<lparr>stdout := None, stderr := None, closed_cli := True\<rparr>)))"

definition Close_cli :: "bool \<Rightarrow> responseEmitter \<Rightarrow> error option outcome \<times> responseEmitter" where
  "Close_cli recv re = close_cli recv re"

definition CloseWithError_cli :: "error option \<Rightarrow> bool \<Rightarrow> responseEmitter
    \<Rightarrow> error option outcome \<times> responseEmitter" where
  "CloseWithError_cli e recv re =
     (case e of
        None \<Rightarrow> Close_cli recv re
      | Some x \<Rightarrow>
         (let m = (case x of CmdkitErrorPtr m' \<Rightarrow> m' | _ \<Rightarrow> error_message x) in
          if closed_cli re then (Ret (Some (ErrorString ''closing closed emitter'')), re)
          else
            (let re1 = re\<lparr>exit := 1\<rparr> in
             case Fprintln Stderr (stderr re1) (''Error: '' @ m) re1 of
               (Ret None, re2) \<Rightarrow> close_cli recv re2
             | (r, re2) \<Rightarrow> (r, re2))))"

text \<open>\<^verbatim>\<open>Exit\<close> records the code, then the deferred \<^verbatim>\<open>Close\<close> runs and its result is dropped.\<close>

definition Exit_cli :: "int \<Rightarrow> bool \<Rightarrow> responseEmitter \<Rightarrow> unit outcome \<times> responseEmitter" where
  "Exit_cli code recv re =
     (case Close_cli recv (re\<lparr>exit := code\<rparr>) of
        (Ret r, re') \<Rightarrow> (Ret (), re')
      | (Panic m, re') \<Rightarrow> (Panic m, re')
      | (Blocked, re') \<Rightarrow> (Blocked, re'))"

text \<open>Decimal digits, for printing an \<^verbatim>\<open>int\<close>.\<close>

function show_nat :: "nat \<Rightarrow> string" where
  "show_nat n = (if n < 10 then [char_of (48 + n)] else show_nat (n div 10) @ [char_of (48 + n mod 10)])"
  by pat_completeness auto
termination
  by (relation "measure (\<lambda>n. n)") auto

definition show_int :: "int \<Rightarrow> string" where
  "show_int i = (if i < 0 then ''-'' @ show_nat (nat (- i)) else show_nat (nat i))"

text \<open>
  What \<^verbatim>\<open>fmt.Fprintln\<close> prints for a value. For pointers, channels and readers Go
  prints an address or the fields of the struct; the model prints a fixed mark.
\<close>

fun render :: "val \<Rightarrow> string" where
  "render NilV = ''<nil>''"
| "render (StrV x) = x"
| "render (IntV i) = show_int i"
| "render (Other x) = x"
| "render (Single x) = ''{'' @ render x @ ''}''"
| "render (Err e) = error_message e"
| "render v = ''0x''"

text \<open>
  \<^verbatim>\<open>io.Copy(re.stdout, t)\<close>: nothing is written for an empty reader; otherwise the
  write fails with the writer's error or the bytes reach the sink; the result is then
  the error the reads ended with, if any.
\<close>

definition Copy :: "writer option \<Rightarrow> string \<Rightarrow> error option \<Rightarrow> responseEmitter
    \<Rightarrow> error option outcome \<times> responseEmitter" where
  "Copy w bytes rerr re =
     (if bytes = [] then (Ret rerr, re)
      else case w of
        None \<Rightarrow> (Panic ''nil pointer dereference'', re)
      | Some wr \<Rightarrow>
         (case write_error wr of
            Some e \<Rightarrow> (Ret (Some e), re)
          | None \<Rightarrow> (Ret rerr, re\<lparr>effects := effects re @ [Write Stdout bytes]\<rparr>)))"

text \<open>
  \<^verbatim>\<open>Emit\<close> from the pointer switch on, for a value that is unwrapped, is no error and
  no channel: the dereference of \<^verbatim>\<open>*string\<close> and \<^verbatim>\<open>*int\<close>, the \<^verbatim>\<open>isClosed\<close> check,
  then the copy of a reader, the encoder, or \<^verbatim>\<open>Fprintln\<close>.
\<close>

definition emit_out :: "val \<Rightarrow> responseEmitter \<Rightarrow> error option outcome \<times> responseEmitter" where
  "emit_out v re =
     (case (case v of
              StrPtr None \<Rightarrow> None
            | StrPtr (Some x) \<Rightarrow> Some (StrV x)
            | IntPtr None \<Rightarrow> None
            | IntPtr (Some i) \<Rightarrow> Some (IntV i)
            | _ \<Rightarrow> Some v) of
        None \<Rightarrow> (Panic ''nil pointer dereference'', re)
      | Some v' \<Rightarrow>
          if isClosed re then (Ret (Some ErrClosedEmitter), re)
          else
            (case v' of
               Reader bytes rerr \<Rightarrow> Copy (stdout re) bytes rerr re
             | _ \<Rightarrow>
                (case enc re of
                   Some encode \<Rightarrow>
                     (let (bytes, e) = encode v' in
                      (Ret e, re\<lparr>effects := effects re @ [Write Stdout bytes]\<rparr>))
                 | None \<Rightarrow> Fprintln Stdout (stdout re) (render v') re)))"

text \<open>
  \<^verbatim>\<open>Emit\<close>: unwrap a \<^verbatim>\<open>Single\<close>, \<^verbatim>\<open>debug.AssertNotError\<close>, hand a channel to
  \<^verbatim>\<open>cmds.EmitChan\<close> (modelled from the spec as for the stream, calling this \<^verbatim>\<open>Emit\<close>
  for every element), and the rest as \<open>emit_out\<close>.
\<close>

function (sequential) Emit_cli :: "val \<Rightarrow> responseEmitter \<Rightarrow> error option outcome \<times> responseEmitter"
  and EmitChan_cli :: "val list \<Rightarrow> error option \<Rightarrow> responseEmitter \<Rightarrow> error option outcome \<times> responseEmitter"
where
  "Emit_cli v re =
     (let v1 = (case v of Single x \<Rightarrow> x | _ \<Rightarrow> v) in
      if is_error_value v1 then (Panic ''AssertNotError'', re)
      else case v1 of
        Chan vs t \<Rightarrow> EmitChan_cli vs t re
      | RecvChan vs t \<Rightarrow> EmitChan_cli vs t re
      | _ \<Rightarrow> emit_out v1 re)"
| "EmitChan_cli [] t re = (Ret t, re)"
| "EmitChan_cli (v # vs) t re =
     (case Emit_cli v re of
        (Ret None, re') \<Rightarrow> EmitChan_cli vs t re'
      | (r, re') \<Rightarrow> (r, re'))"
  by pat_completeness auto
termination
  by (relation "measure (\<lambda>x. case x of Inl (v, _) \<Rightarrow> size v | Inr (vs, _) \<Rightarrow> size_list size vs)")
     (auto split: val.splits)


section \<open>Runs of calls\<close>

text \<open>
  The kinds of value the emitters treat alike: a channel of either direction, and a
  value that is neither a \<^verbatim>\<open>Single\<close>, nor an error, nor a channel.
\<close>

definition is_chan :: "val \<Rightarrow> bool" where
  "is_chan v = (case v of Chan vs t \<Rightarrow> True | RecvChan vs t \<Rightarrow> True | _ \<Rightarrow> False)"

definition plain :: "val \<Rightarrow> bool" where
  "plain v = (\<not> is_Single v \<and> \<not> is_error_value v \<and> \<not> is_chan v)"

text \<open>The request's context is cancelled with error \<open>e\<close>; a context that is done stays as it is.\<close>

definition cancel :: "error \<Rightarrow> chanStream \<Rightarrow> chanStream" where
  "cancel e s =
     s\<lparr>req := (case req s of
                 Some (Request (Some Live)) \<Rightarrow> Some (Request (Some (Done e)))
               | r \<Rightarrow> r)\<rparr>"

text \<open>
  A call on one of the two handles of a stream, or a cancellation, and the state it
  leaves behind.
\<close>

datatype call =
    CallEmit val bool pick
  | CallSetLength "64 word"
  | CallCloseWithError "error option"
  | CallClose
  | CallNext pick
  | CallCancel error

fun exec :: "call \<Rightarrow> chanStream \<Rightarrow> chanStream" where
  "exec (CallEmit v peer pk) s = snd (Emit v peer pk s)"
| "exec (CallSetLength l) s = SetLength l s"
| "exec (CallCloseWithError e) s = snd (CloseWithError e s)"
| "exec CallClose s = snd (Close s)"
| "exec (CallNext pk) s = (case snd (Next pk (Some s)) of Some s' \<Rightarrow> s' | None \<Rightarrow> s)"
| "exec (CallCancel e) s = cancel e s"

text \<open>
  Producer and consumer in step: every value is emitted while the reader waits in
  \<^verbatim>\<open>Next\<close>, and that \<^verbatim>\<open>Next\<close> returns before the next \<^verbatim>\<open>Emit\<close> starts. The results
  of the \<^verbatim>\<open>Emit\<close> calls and of the \<^verbatim>\<open>Next\<close> calls are collected in order.
\<close>

fun deliver :: "pick \<Rightarrow> val list \<Rightarrow> chanStream
    \<Rightarrow> error option outcome list \<times> (val \<times> error option) outcome list \<times> chanStream" where
  "deliver pk [] s = ([], [], s)"
| "deliver pk (v # vs) s =
     (let (r, s1) = Emit v True pk s;
          (n, h) = Next pk (Some s1);
          s2 = (case h of Some s' \<Rightarrow> s' | None \<Rightarrow> s1);
          (rs, ns, s3) = deliver pk vs s2
      in (r # rs, n # ns, s3))"

text \<open>A call on the command-line emitter, and the state it leaves behind.\<close>

datatype call_cli =
    CliEmit val
  | CliSetLength "64 word"
  | CliSetEncoder "writer option \<Rightarrow> (val \<Rightarrow> string \<times> error option) option"
  | CliClose bool
  | CliCloseWithError "error option" bool
  | CliExit int bool

fun exec_cli :: "call_cli \<Rightarrow> responseEmitter \<Rightarrow> responseEmitter" where
  "exec_cli (CliEmit v) re = snd (Emit_cli v re)"
| "exec_cli (CliSetLength l) re = SetLength_cli l re"
| "exec_cli (CliSetEncoder mk) re = SetEncoder_cli mk re"
| "exec_cli (CliClose recv) re = snd (Close_cli recv re)"
| "exec_cli (CliCloseWithError e recv) re = snd (CloseWithError_cli e recv re)"
| "exec_cli (CliExit code recv) re = snd (Exit_cli code recv re)"


text \<open>
  What every run of calls keeps true of a stream: \<^verbatim>\<open>closed\<close> is set exactly when \<^verbatim>\<open>ch\<close>
  is closed, and \<^verbatim>\<open>wait\<close> is closed as soon as a value was sent or the stream closed.
\<close>

definition stream_inv :: "chanStream \<Rightarrow> bool" where
  "stream_inv s =
     (closed s = chan_closed (ch s) \<and> (wait s \<or> (\<not> closed s \<and> sends (ch s) = 0)))"

text \<open>
  For the command-line emitter: \<^verbatim>\<open>closed\<close> is set exactly when \<^verbatim>\<open>ch\<close> is closed, and
  \<open>frozen re re'\<close> says that \<open>re'\<close> is closed and agrees with \<open>re\<close> on the exit
  channel, on what reached the sinks and on the sinks themselves.
\<close>

definition cli_inv :: "responseEmitter \<Rightarrow> bool" where
  "cli_inv re = (closed_cli re = chan_closed (ch_cli re))"

definition frozen :: "responseEmitter \<Rightarrow> responseEmitter \<Rightarrow> bool" where
  "frozen re re' =
     (closed_cli re' \<and> ch_cli re' = ch_cli re \<and> effects re' = effects re
      \<and> stdout re' = stdout re \<and> stderr re' = stderr re)"

text \<open>
  For a sink of \<^verbatim>\<open>close\<close>: the error its \<^verbatim>\<open>Sync\<close> returns if it is an operating-system
  file, whether \<^verbatim>\<open>close\<close> goes on after it, and the \<^verbatim>\<open>Sync\<close> call it receives.
\<close>

definition file_sync_error :: "writer option \<Rightarrow> error option" where
  "file_sync_error w =
     (case w of None \<Rightarrow> None | Some wr \<Rightarrow> if is_file wr then sync_error wr else None)"

definition tolerated :: "writer option \<Rightarrow> bool" where
  "tolerated w = (case file_sync_error w of None \<Rightarrow> True | Some e \<Rightarrow> ignoreError e)"

definition sync_effects :: "sink \<Rightarrow> writer option \<Rightarrow> effect list" where
  "sync_effects k w = (case w of None \<Rightarrow> [] | Some wr \<Rightarrow> if is_file wr then [Sync k] else [])"

text \<open>
  What \<^verbatim>\<open>close\<close> returns once the exit code is sent, by the sinks of the emitter: the
  sync error of \<^verbatim>\<open>stderr\<close> unless it is tolerated, else that of \<^verbatim>\<open>stdout\<close> unless it
  is tolerated, else nil. And the line that \<^verbatim>\<open>CloseWithError\<close> prints to \<^verbatim>\<open>stderr\<close> for
  an error.
\<close>

definition sync_outcome :: "responseEmitter \<Rightarrow> error option" where
  "sync_outcome re =
     (if tolerated (stderr re)
      then (if tolerated (stdout re) then None else file_sync_error (stdout re))
      else file_sync_error (stderr re))"

definition error_line :: "error \<Rightarrow> string" where
  "error_line x =
     ''Error: '' @ (case x of CmdkitErrorPtr m \<Rightarrow> m | _ \<Rightarrow> error_message x) @ [CHR 0x0A]"

text \<open>
  The value \<^verbatim>\<open>Emit\<close> of the command-line emitter goes on with after its first type
  switch, and the two pointers whose dereference panics.
\<close>

definition unwrap :: "val \<Rightarrow> val" where
  "unwrap v = (case v of Single x \<Rightarrow> x | _ \<Rightarrow> v)"

definition nil_pointer :: "val \<Rightarrow> bool" where
  "nil_pointer v = (v = StrPtr None \<or> v = IntPtr None)"

section \<open>Properties of the stream\<close>

lemmas stream_defs = emit_value_def emit_body_def closeWithError_def CloseWithError_def Close_def
  select2_def is_error_value_def is_Single_def Let_def

lemma Emit_no_chan: "\<not> is_chan v \<Longrightarrow> Emit v peer pk s = emit_value v peer pk s"
  by (cases v) (simp_all add: is_chan_def)

lemma Emit_plain: "plain v \<Longrightarrow> Emit v peer pk s = emit_value v peer pk s"
  by (simp add: plain_def Emit_no_chan)

text \<open>
  Whatever \<^verbatim>\<open>Emit\<close> of a single value keeps, the flattening of nested channels keeps.
\<close>

lemma Emit_preserves:
  assumes step: "\<And>v peer pk s. P s \<Longrightarrow> P (snd (emit_value v peer pk s))"
  shows "P s \<Longrightarrow> P (snd (Emit v peer pk s))"
    and "P s \<Longrightarrow> P (snd (EmitChan vs t peer pk s))"
proof (induction v peer pk s and vs t peer pk s rule: Emit_EmitChan.induct)
  case (5 v vs t peer pk s)
  obtain r s' where e: "Emit v peer pk s = (r, s')" by (cases "Emit v peer pk s")
  from 5(1)[OF 5(3)] e have p: "P s'" by simp
  show ?case
  proof (cases "r = Ret None")
    case True
    with 5(2)[OF _ _ _ p] e show ?thesis by simp
  next
    case False
    with e p show ?thesis by (auto split: outcome.splits option.splits)
  qed
qed (simp_all add: step)

lemma emit_value_inv: "stream_inv s \<Longrightarrow> stream_inv (snd (emit_value v peer pk s))"
  by (auto simp: stream_inv_def stream_defs split: option.splits pick.splits ctx.splits outcome.splits)

lemma emit_value_closed: "closed s \<Longrightarrow> closed (snd (emit_value v peer pk s))"
  by (auto simp: stream_defs split: option.splits pick.splits ctx.splits outcome.splits)

lemma emit_value_wait:
  "wait s \<and> lengthS s = n \<Longrightarrow>
   wait (snd (emit_value v peer pk s)) \<and> lengthS (snd (emit_value v peer pk s)) = n"
  by (auto simp: stream_defs split: option.splits pick.splits ctx.splits outcome.splits)

lemma exec_inv: "stream_inv s \<Longrightarrow> stream_inv (exec c s)"
proof (cases c)
  case (CallEmit v peer pk)
  then show "stream_inv s \<Longrightarrow> ?thesis"
    using Emit_preserves(1)[of stream_inv, OF emit_value_inv] by simp
next
  case (CallNext pk)
  then show "stream_inv s \<Longrightarrow> ?thesis"
    by (auto simp: Next_def stream_inv_def Let_def split: option.splits list.splits pick.splits)
qed (auto simp: stream_inv_def stream_defs SetLength_def cancel_def
       split: option.splits request.splits ctx.splits)

lemma exec_closed: "closed s \<Longrightarrow> closed (exec c s)"
proof (cases c)
  case (CallEmit v peer pk)
  then show "closed s \<Longrightarrow> ?thesis"
    using Emit_preserves(1)[of closed, OF emit_value_closed] by simp
next
  case (CallNext pk)
  then show "closed s \<Longrightarrow> ?thesis"
    by (auto simp: Next_def Let_def split: option.splits list.splits pick.splits)
qed (auto simp: stream_defs SetLength_def cancel_def split: option.splits request.splits ctx.splits)

lemma exec_wait: "wait s \<and> lengthS s = n \<Longrightarrow> wait (exec c s) \<and> lengthS (exec c s) = n"
proof (cases c)
  case (CallEmit v peer pk)
  then show "wait s \<and> lengthS s = n \<Longrightarrow> ?thesis"
    using Emit_preserves(1)[of "\<lambda>s. wait s \<and> lengthS s = n", OF emit_value_wait] by simp
next
  case (CallNext pk)
  then show "wait s \<and> lengthS s = n \<Longrightarrow> ?thesis"
    by (auto simp: Next_def Let_def split: option.splits list.splits pick.splits)
qed (auto simp: stream_defs SetLength_def cancel_def split: option.splits request.splits ctx.splits)

lemma fold_exec_inv: "stream_inv s \<Longrightarrow> stream_inv (fold exec cs s)"
  by (induction cs arbitrary: s) (simp_all add: exec_inv)

lemma fold_exec_closed: "closed s \<Longrightarrow> closed (fold exec cs s)"
  by (induction cs arbitrary: s) (simp_all add: exec_closed)

lemma fold_exec_wait:
  "wait s \<and> lengthS s = n \<Longrightarrow> wait (fold exec cs s) \<and> lengthS (fold exec cs s) = n"
  by (induction cs arbitrary: s) (simp_all add: exec_wait)

lemma New_inv: "stream_inv (NewChanResponsePair r)"
  by (simp add: stream_inv_def NewChanResponsePair_def)

lemma reachable_inv: "stream_inv (fold exec cs (NewChanResponsePair r))"
  by (rule fold_exec_inv) (rule New_inv)

lemma CloseWithError_open:
  "\<not> closed s \<Longrightarrow> \<not> chan_closed (ch s) \<Longrightarrow>
   CloseWithError e s =
     (Ret None,
      s\<lparr>closed := True,
        err := Some (case e of None \<Rightarrow> EOF | Some (CmdkitError m) \<Rightarrow> CmdkitErrorPtr m | Some x \<Rightarrow> x),
        ch := (ch s)\<lparr>chan_closed := True\<rparr>, wait := True\<rparr>)"
  by (auto simp: stream_defs split: option.splits error.splits)

lemma CloseWithError_closed:
  "closed s \<Longrightarrow> CloseWithError e s = (Ret (Some (ErrorString ''close of closed emitter'')), s)"
  by (simp add: CloseWithError_def)

lemma Emit_closed_plain:
  "closed s \<Longrightarrow> plain v \<Longrightarrow> Emit v peer pk s = (Ret (Some ErrClosedEmitter), s\<lparr>wait := True\<rparr>)"
  by (simp add: Emit_plain) (simp add: plain_def stream_defs)

text \<open>
  C1, as the code behaves. On a stream closed by \<^verbatim>\<open>Close\<close> or \<^verbatim>\<open>CloseWithError\<close>,
  \<^verbatim>\<open>Emit\<close> of a \<^verbatim>\<open>Single\<close> does not return \<^verbatim>\<open>ErrClosedEmitter\<close> to its caller: the
  deferred \<^verbatim>\<open>closeWithError(nil)\<close> runs after the closed check, overwrites the recorded
  error with \<^verbatim>\<open>io.EOF\<close> and panics on closing the closed channel.
\<close>

theorem Emit_Single_after_Close_panics:
  "Emit (Single x) peer pk (snd (CloseWithError e (NewChanResponsePair r)))
     = (Panic ''close of closed channel'',
        (snd (CloseWithError e (NewChanResponsePair r)))\<lparr>err := Some EOF\<rparr>)"
  by (simp add: stream_defs NewChanResponsePair_def)

text \<open>
  C3. On an open stream whose request context is live and whose reader has nothing
  left to return, \<^verbatim>\<open>Emit\<close> of \<^verbatim>\<open>Single{x}\<close> to a waiting reader succeeds, the reader's
  \<^verbatim>\<open>Next\<close> returns the unwrapped \<open>x\<close>, and the following \<^verbatim>\<open>Next\<close> returns
  \<^verbatim>\<open>io.EOF\<close>: the stream is closed with the success outcome although the producer never
  called \<^verbatim>\<open>Close\<close>. That last state no longer changes, so every later \<^verbatim>\<open>Next\<close>
  returns \<^verbatim>\<open>io.EOF\<close> as well.
\<close>

theorem Single_then_end_of_stream:
  assumes "req s = Some (Request (Some Live))" and "\<not> closed s" and "\<not> chan_closed (ch s)"
    and "pending (ch s) = []"
  shows "\<exists>s1 s2. Emit (Single x) True pk s = (Ret None, s1)
           \<and> Next pk1 (Some s1) = (Ret (x, None), Some s2)
           \<and> Next pk2 (Some s2) = (Ret (NilV, Some EOF), Some s2)
           \<and> closed s2 \<and> err s2 = Some EOF"
  using assms by (simp add: stream_defs Next_def)

theorem Single_then_end_of_stream_witness:
  "\<exists>s1 s2. Emit (Single (StrV ''some value'')) True PickComm
              (NewChanResponsePair (Some (Request (Some Live)))) = (Ret None, s1)
           \<and> Next PickComm (Some s1) = (Ret (StrV ''some value'', None), Some s2)
           \<and> Next PickComm (Some s2) = (Ret (NilV, Some EOF), Some s2)
           \<and> closed s2 \<and> err s2 = Some EOF"
  using Single_then_end_of_stream [of "NewChanResponsePair (Some (Request (Some Live)))"
      "StrV ''some value''" PickComm PickComm PickComm]
  by (simp add: NewChanResponsePair_def)

lemma handover_plain:
  assumes "plain v" and "req s = Some (Request (Some Live))" and "\<not> closed s"
    and "\<not> chan_closed (ch s)" and "pending (ch s) = []"
  shows "Emit v True pk s =
           (Ret None, s\<lparr>wait := True, ch := (ch s)\<lparr>pending := [v], sends := Suc (sends (ch s))\<rparr>\<rparr>)"
    and "Next pk (Some (s\<lparr>wait := True, ch := (ch s)\<lparr>pending := [v], sends := Suc (sends (ch s))\<rparr>\<rparr>))
           = (Ret (v, None),
              Some (s\<lparr>wait := True, ch := (ch s)\<lparr>pending := [], sends := Suc (sends (ch s))\<rparr>\<rparr>))"
  using assms
  by (auto simp: Emit_plain plain_def stream_defs Next_def is_chan_def split: val.splits)

lemma deliver_plain:
  assumes "list_all plain vs" and "req s = Some (Request (Some Live))" and "\<not> closed s"
    and "\<not> chan_closed (ch s)" and "pending (ch s) = []"
  shows "deliver pk vs s =
           (map (\<lambda>v. Ret None) vs, map (\<lambda>v. Ret (v, None)) vs,
            if vs = [] then s
            else s\<lparr>wait := True, ch := (ch s)\<lparr>pending := [], sends := length vs + sends (ch s)\<rparr>\<rparr>)"
  using assms
proof (induction vs arbitrary: s)
  case Nil
  then show ?case by simp
next
  case (Cons v vs)
  let ?s2 = "s\<lparr>wait := True, ch := (ch s)\<lparr>pending := [], sends := Suc (sends (ch s))\<rparr>\<rparr>"
  from Cons.prems have pv: "plain v" and pvs: "list_all plain vs" by simp_all
  note h = handover_plain[OF pv Cons.prems(2-5), of pk]
  have "deliver pk vs ?s2 =
           (map (\<lambda>v. Ret None) vs, map (\<lambda>v. Ret (v, None)) vs,
            if vs = [] then ?s2
            else ?s2\<lparr>wait := True,
                     ch := (ch ?s2)\<lparr>pending := [], sends := length vs + sends (ch ?s2)\<rparr>\<rparr>)"
    using Cons.prems by (intro Cons.IH[OF pvs]) simp_all
  then show ?case using h by simp
qed

text \<open>
  C6. On an open stream with a live request context, any finite sequence of plain
  values emitted to a waiting reader, followed by \<^verbatim>\<open>Close\<close>: every \<^verbatim>\<open>Emit\<close> and the
  \<^verbatim>\<open>Close\<close> succeed, the \<^verbatim>\<open>Next\<close> calls return exactly the emitted values in the order
  of emission, each without an error, and only the \<^verbatim>\<open>Next\<close> after the last value
  returns the end of the stream, \<^verbatim>\<open>io.EOF\<close>.
\<close>

theorem Emits_then_Close_in_order:
  assumes "list_all plain vs" and "req s = Some (Request (Some Live))" and "\<not> closed s"
    and "\<not> chan_closed (ch s)" and "pending (ch s) = []"
  shows "\<exists>s1 s2. deliver pk vs s = (map (\<lambda>v. Ret None) vs, map (\<lambda>v. Ret (v, None)) vs, s1)
           \<and> Close s1 = (Ret None, s2)
           \<and> Next pk' (Some s2) = (Ret (NilV, Some EOF), Some s2)"
  using assms deliver_plain[OF assms, of pk]
  by (auto simp: stream_defs Next_def)

theorem Emits_then_Close_in_order_witness:
  "\<exists>s1 s2. deliver PickComm [StrV ''hello'', StrV ''world'']
               (NewChanResponsePair (Some (Request (Some Live))))
              = ([Ret None, Ret None],
                 [Ret (StrV ''hello'', None), Ret (StrV ''world'', None)], s1)
           \<and> Close s1 = (Ret None, s2)
           \<and> Next PickComm (Some s2) = (Ret (NilV, Some EOF), Some s2)"
  using Emits_then_Close_in_order [of "[StrV ''hello'', StrV ''world'']"
      "NewChanResponsePair (Some (Request (Some Live)))" PickComm PickComm]
  by (simp add: NewChanResponsePair_def plain_def is_Single_def is_error_value_def is_chan_def)

lemma cancel_keeps:
  "closed (cancel e s) = closed s \<and> err (cancel e s) = err s \<and> ch (cancel e s) = ch s"
  by (simp add: cancel_def)

lemma cancelled_plain_stays_open:
  assumes "req s = Some (Request (Some Live))" and "\<not> closed s" and "\<not> chan_closed (ch s)"
    and "plain v"
  shows "fst (Emit v False pk s) = Blocked"
    and "Emit v False pk (cancel e s) = (Ret (Some e), (cancel e s)\<lparr>wait := True\<rparr>)"
    and "fst (Close ((cancel e s)\<lparr>wait := True\<rparr>)) = Ret None"
  using assms by (simp_all add: Emit_plain plain_def stream_defs cancel_def)

lemma cancelled_Next_stays_open:
  assumes "req s = Some (Request (Some Live))" and "\<not> closed s" and "\<not> chan_closed (ch s)"
    and "pending (ch s) = []"
  shows "fst (Next pk (Some s)) = Blocked"
    and "Next pk (Some (cancel e s)) = (Ret (NilV, Some e), Some (cancel e s))"
    and "\<not> closed (cancel e s)" and "err (cancel e s) = err s"
    and "fst (Close (cancel e s)) = Ret None"
  using assms by (simp_all add: stream_defs cancel_def Next_def)

text \<open>
  C7, as the code behaves. \<^verbatim>\<open>Emit\<close> of a \<^verbatim>\<open>Single\<close> with no reader waits in its
  \<^verbatim>\<open>select\<close> while the context is live. Once the context is cancelled the call returns
  the context's error, and the deferred \<^verbatim>\<open>closeWithError(nil)\<close> runs all the same:
  the stream is closed, \<^verbatim>\<open>io.EOF\<close> is recorded as its outcome although nothing was
  delivered, and the producer's \<^verbatim>\<open>Close\<close> afterwards fails. (For a plain value and for
  \<^verbatim>\<open>Next\<close> the stream stays open, lemmas \<open>cancelled_plain_stays_open\<close> and
  \<open>cancelled_Next_stays_open\<close>.)
\<close>

theorem Single_cancelled_closes_stream:
  "fst (Emit (Single x) False pk (NewChanResponsePair (Some (Request (Some Live))))) = Blocked
   \<and> \<not> closed (snd (Emit (Single x) False pk (NewChanResponsePair (Some (Request (Some Live))))))
   \<and> (let s' = snd (Emit (Single x) False pk
                      (cancel e (NewChanResponsePair (Some (Request (Some Live))))))
       in fst (Emit (Single x) False pk (cancel e (NewChanResponsePair (Some (Request (Some Live))))))
            = Ret (Some e)
          \<and> closed s' \<and> err s' = Some EOF \<and> pending (ch s') = []
          \<and> fst (Close s') = Ret (Some (ErrorString ''close of closed emitter'')))"
  by (simp add: stream_defs NewChanResponsePair_def cancel_def)

lemma emit_value_lengthS: "lengthS (snd (emit_value v peer pk s)) = lengthS s"
  by (auto simp: stream_defs split: option.splits pick.splits ctx.splits outcome.splits)

lemma Emit_lengthS: "lengthS (snd (Emit v peer pk s)) = lengthS s"
  using Emit_preserves(1)[of "\<lambda>x. lengthS x = lengthS s" s v peer pk]
  by (simp add: emit_value_lengthS)

lemma exec_lengthS: "(\<And>l. c \<noteq> CallSetLength l) \<Longrightarrow> lengthS (exec c s) = lengthS s"
proof (cases c)
  case (CallEmit v peer pk)
  then show ?thesis by (simp add: Emit_lengthS)
next
  case (CallNext pk)
  then show ?thesis
    by (auto simp: Next_def Let_def split: option.splits list.splits pick.splits)
qed (auto simp: stream_defs cancel_def split: option.splits request.splits ctx.splits)

lemma fold_exec_lengthS:
  "(\<And>l. CallSetLength l \<notin> set cs) \<Longrightarrow> lengthS (fold exec cs s) = lengthS s"
proof (induction cs arbitrary: s)
  case Nil
  then show ?case by simp
next
  case (Cons c cs)
  have "lengthS (exec c s) = lengthS s" using Cons.prems by (intro exec_lengthS) auto
  moreover have "lengthS (fold exec cs (exec c s)) = lengthS (exec c s)"
    using Cons.prems by (intro Cons.IH) auto
  ultimately show ?case by simp
qed

section \<open>Properties of the command-line emitter\<close>

lemmas cli_defs = close_cli_def Close_cli_def CloseWithError_cli_def Exit_cli_def sync_sink_def
  Fprintln_def Copy_def emit_out_def isClosed_def SetLength_cli_def SetEncoder_cli_def Let_def

lemma Emit_cli_preserves:
  assumes step: "\<And>v re. P re \<Longrightarrow> P (snd (emit_out v re))"
  shows "P re \<Longrightarrow> P (snd (Emit_cli v re))"
    and "P re \<Longrightarrow> P (snd (EmitChan_cli vs t re))"
proof (induction v re and vs t re rule: Emit_cli_EmitChan_cli.induct)
  case (1 v re)
  then show ?case
    by (auto simp: Let_def step split: val.splits)
next
  case (2 t re)
  then show ?case by simp
next
  case (3 v vs t re)
  obtain r re' where e: "Emit_cli v re = (r, re')" by (cases "Emit_cli v re")
  from 3(1)[OF 3(3)] e have p: "P re'" by simp
  show ?case
  proof (cases "r = Ret None")
    case True
    with 3(2)[OF _ _ _ p] e show ?thesis by simp
  next
    case False
    with e p show ?thesis by (auto split: outcome.splits option.splits)
  qed
qed

lemma emit_out_frame:
  "closed_cli (snd (emit_out v re)) = closed_cli re \<and> ch_cli (snd (emit_out v re)) = ch_cli re
   \<and> exit (snd (emit_out v re)) = exit re \<and> stdout (snd (emit_out v re)) = stdout re
   \<and> stderr (snd (emit_out v re)) = stderr re"
  by (auto simp: cli_defs split: option.splits val.splits prod.splits)

lemma emit_out_closed: "closed_cli re \<Longrightarrow> snd (emit_out v re) = re"
  by (auto simp: cli_defs split: option.splits val.splits prod.splits)

lemma Emit_cli_frame:
  "closed_cli (snd (Emit_cli v re)) = closed_cli re \<and> ch_cli (snd (Emit_cli v re)) = ch_cli re"
  using Emit_cli_preserves(1)[of "\<lambda>x. closed_cli x = closed_cli re \<and> ch_cli x = ch_cli re" re v]
  by (simp add: emit_out_frame)

lemma Emit_cli_frozen: "frozen re0 re \<Longrightarrow> frozen re0 (snd (Emit_cli v re))"
  using Emit_cli_preserves(1)[of "frozen re0" re v]
  by (simp add: emit_out_closed frozen_def)

lemma exec_cli_frozen: "frozen re0 re \<Longrightarrow> frozen re0 (exec_cli c re)"
proof (cases c)
  case (CliEmit v)
  then show "frozen re0 re \<Longrightarrow> ?thesis" by (simp del: Emit_cli.simps add: Emit_cli_frozen)
qed (auto simp: frozen_def cli_defs split: option.splits)

lemma fold_exec_cli_frozen: "frozen re0 re \<Longrightarrow> frozen re0 (fold exec_cli cs re)"
  by (induction cs arbitrary: re) (simp_all add: exec_cli_frozen)

lemma exec_cli_inv: "cli_inv re \<Longrightarrow> cli_inv (exec_cli c re)"
proof (cases c)
  case (CliEmit v)
  then show "cli_inv re \<Longrightarrow> ?thesis"
    using Emit_cli_frame[of v re] by (simp del: Emit_cli.simps add: cli_inv_def)
qed (auto simp: cli_inv_def cli_defs split: option.splits prod.splits outcome.splits)

lemma fold_exec_cli_inv: "cli_inv re \<Longrightarrow> cli_inv (fold exec_cli cs re)"
  by (induction cs arbitrary: re) (simp_all add: exec_cli_inv)

lemma close_cli_closed:
  "closed_cli re \<Longrightarrow> close_cli recv re = (Ret (Some (ErrorString ''closing closed responseemitter'')), re)"
  by (simp add: close_cli_def)

lemma close_cli_open:
  assumes "\<not> closed_cli re" and "\<not> chan_closed (ch_cli re)"
  shows "close_cli True re =
    (Ret (if tolerated (stderr re)
          then (if tolerated (stdout re) then None else file_sync_error (stdout re))
          else file_sync_error (stderr re)),
     re\<lparr>ch_cli := \<lparr>pending = pending (ch_cli re) @ [exit re], sends = Suc (sends (ch_cli re)),
                    chan_closed = True\<rparr>,
        effects := effects re @ sync_effects Stderr (stderr re)
                     @ (if tolerated (stderr re) then sync_effects Stdout (stdout re) else []),
        stdout := None, stderr := None, closed_cli := True\<rparr>)"
  using assms
  by (auto simp: cli_defs tolerated_def file_sync_error_def sync_effects_def split: option.splits)

lemma ignoreError_iff:
  "ignoreError e =
     (\<exists>path n txt. e = PathError ''sync'' path (Errno n txt) \<and> (n = EINVAL \<or> n = ENOTSUP))"
  by (cases e) (auto simp: ignoreError_def split: error.splits)


lemma fold_exec_cli_closed:
  "closed_cli re \<Longrightarrow> frozen re (fold exec_cli cs re)"
  by (rule fold_exec_cli_frozen) (simp add: frozen_def)

lemma Close_cli_reachable_closes:
  "cli_inv re \<Longrightarrow> closed_cli (snd (Close_cli True re))"
  by (auto simp: cli_inv_def cli_defs split: prod.splits option.splits)

lemma New_cli_inv: "cli_inv (NewResponseEmitter out errw en t)"
  by (simp add: cli_inv_def NewResponseEmitter_def)

lemma Emit_cli_closed_rejects:
  assumes "closed_cli re" and "\<not> is_error_value (unwrap v)" and "\<not> is_chan (unwrap v)"
    and "\<not> nil_pointer (unwrap v)"
  shows "Emit_cli v re = (Ret (Some ErrClosedEmitter), re)"
  using assms
  by (auto simp: unwrap_def is_chan_def nil_pointer_def emit_out_def isClosed_def Let_def
      split: val.splits option.splits)

lemma close_cli_detaches:
  assumes "\<not> closed_cli re" and "close_cli recv re = (Ret r, re')"
  shows "stdout re' = None \<and> stderr re' = None \<and> closed_cli re' \<and> exit re' = exit re
      \<and> enc re' = enc re \<and> encType re' = encType re \<and> length_cli re' = length_cli re"
  using assms
  by (auto simp: close_cli_def sync_sink_def Let_def split: if_splits option.splits prod.splits)

section \<open>Properties of both emitters\<close>

text \<open>
  After a close that went through, every close is rejected, on both emitters.
\<close>

lemma close_then_rejected:
  assumes "\<not> closed (fold exec cs (NewChanResponsePair r))"
  shows "(let s = fold exec cs (NewChanResponsePair r);
              s1 = snd (CloseWithError e s);
              s2 = fold exec cs' s1
          in CloseWithError e s = (Ret None, s1) \<and> Close s = CloseWithError None s
             \<and> closed s1 \<and> pending (ch s1) = pending (ch s) \<and> sends (ch s1) = sends (ch s)
             \<and> CloseWithError e' s2 = (Ret (Some (ErrorString ''close of closed emitter'')), s2)
             \<and> Close s2 = (Ret (Some (ErrorString ''close of closed emitter'')), s2))
       \<and> (let re = fold exec_cli ds (NewResponseEmitter out errw en t);
               re1 = snd (Close_cli True re);
               re2 = fold exec_cli ds' re1
           in closed_cli re1 \<and> effects re2 = effects re1 \<and> ch_cli re2 = ch_cli re1
              \<and> Close_cli recv re2 = (Ret (Some (ErrorString ''closing closed responseemitter'')), re2)
              \<and> CloseWithError_cli (Some x) recv re2
                   = (Ret (Some (ErrorString ''closing closed emitter'')), re2))"
proof -
  define s where "s = fold exec cs (NewChanResponsePair r)"
  define s1 where "s1 = snd (CloseWithError e s)"
  define s2 where "s2 = fold exec cs' s1"
  have inv: "stream_inv s" unfolding s_def by (rule reachable_inv)
  have op: "\<not> closed s" using assms by (simp add: s_def)
  with inv have nc: "\<not> chan_closed (ch s)" by (simp add: stream_inv_def)
  note c1 = CloseWithError_open[OF op nc, of e]
  have a: "CloseWithError e s = (Ret None, s1)" "closed s1" "pending (ch s1) = pending (ch s)"
    "sends (ch s1) = sends (ch s)"
    using c1 by (simp_all add: s1_def)
  have "closed s2" unfolding s2_def using a(2) by (rule fold_exec_closed)
  then have b: "CloseWithError e' s2 = (Ret (Some (ErrorString ''close of closed emitter'')), s2)"
    "Close s2 = (Ret (Some (ErrorString ''close of closed emitter'')), s2)"
    by (simp_all add: CloseWithError_closed Close_def)
  define re where "re = fold exec_cli ds (NewResponseEmitter out errw en t)"
  define re1 where "re1 = snd (Close_cli True re)"
  define re2 where "re2 = fold exec_cli ds' re1"
  have "cli_inv re" unfolding re_def by (rule fold_exec_cli_inv) (rule New_cli_inv)
  then have c: "closed_cli re1" unfolding re1_def by (rule Close_cli_reachable_closes)
  then have "frozen re1 re2" unfolding re2_def by (rule fold_exec_cli_closed)
  then have d: "closed_cli re2" "effects re2 = effects re1" "ch_cli re2 = ch_cli re1"
    by (simp_all add: frozen_def)
  have e: "Close_cli recv re2 = (Ret (Some (ErrorString ''closing closed responseemitter'')), re2)"
    "CloseWithError_cli (Some x) recv re2 = (Ret (Some (ErrorString ''closing closed emitter'')), re2)"
    using d(1) by (simp_all add: Close_cli_def close_cli_closed CloseWithError_cli_def)
  show ?thesis
    using a b c d e
    unfolding Let_def s_def[symmetric] s1_def[symmetric] s2_def[symmetric]
      re_def[symmetric] re1_def[symmetric] re2_def[symmetric]
    by (simp add: Close_def)
qed


lemma closed_cli_rejects:
  assumes "closed_cli x"
  shows "effects (fold exec_cli ds x) = effects x \<and> ch_cli (fold exec_cli ds x) = ch_cli x
     \<and> Close_cli recv (fold exec_cli ds x)
          = (Ret (Some (ErrorString ''closing closed responseemitter'')), fold exec_cli ds x)
     \<and> CloseWithError_cli None recv (fold exec_cli ds x)
          = (Ret (Some (ErrorString ''closing closed responseemitter'')), fold exec_cli ds x)
     \<and> CloseWithError_cli (Some y) recv (fold exec_cli ds x)
          = (Ret (Some (ErrorString ''closing closed emitter'')), fold exec_cli ds x)"
proof -
  have "frozen x (fold exec_cli ds x)" using assms by (rule fold_exec_cli_closed)
  then have "closed_cli (fold exec_cli ds x)" "effects (fold exec_cli ds x) = effects x"
    "ch_cli (fold exec_cli ds x) = ch_cli x"
    by (simp_all add: frozen_def)
  then show ?thesis
    by (simp add: Close_cli_def close_cli_closed CloseWithError_cli_def)
qed

lemma Close_cli_open:
  assumes "\<not> closed_cli re" and "cli_inv re"
  shows "Close_cli True re =
    (Ret (sync_outcome re),
     re\<lparr>ch_cli := \<lparr>pending = pending (ch_cli re) @ [exit re], sends = Suc (sends (ch_cli re)),
                    chan_closed = True\<rparr>,
        effects := effects re @ sync_effects Stderr (stderr re)
                     @ (if tolerated (stderr re) then sync_effects Stdout (stdout re) else []),
        stdout := None, stderr := None, closed_cli := True\<rparr>)"
proof -
  from assms have "\<not> chan_closed (ch_cli re)" by (simp add: cli_inv_def)
  from close_cli_open[OF assms(1) this] show ?thesis
    by (simp add: Close_cli_def sync_outcome_def)
qed

lemma CloseWithError_cli_open:
  assumes "\<not> closed_cli re" and "stderr re = Some w" and "write_error w = None"
  shows "CloseWithError_cli (Some x) recv re
           = close_cli recv (re\<lparr>exit := 1, effects := effects re @ [Write Stderr (error_line x)]\<rparr>)"
  using assms
  by (simp add: CloseWithError_cli_def Fprintln_def error_line_def Let_def)

text \<open>
  A \<^verbatim>\<open>CloseWithError\<close> that cannot print its line to \<^verbatim>\<open>stderr\<close> returns the error of
  the write; the exit code is 1 by then and the emitter is still open.
\<close>

lemma CloseWithError_cli_write_fails:
  assumes "\<not> closed_cli re" and "stderr re = Some w" and "write_error w = Some e"
  shows "CloseWithError_cli (Some x) recv re = (Ret (Some e), re\<lparr>exit := 1\<rparr>)"
  using assms
  by (simp add: CloseWithError_cli_def Fprintln_def Let_def)

lemma sync_outcome_None:
  "(sync_outcome re = None) = (tolerated (stderr re) \<and> tolerated (stdout re))"
  by (auto simp: sync_outcome_def tolerated_def ignoreError_def split: option.splits)

text \<open>
  C2 fails as stated for the command-line emitter: on a fresh emitter whose \<^verbatim>\<open>stderr\<close>
  is a file that cannot be synced, the first \<^verbatim>\<open>Close\<close> returns the error of the sync,
  not success.
\<close>

theorem first_Close_cli_fails_counterexample:
  "\<not> closed_cli (NewResponseEmitter None
        (Some \<lparr>is_file = True, write_error = None,
               sync_error = Some (PathError ''sync'' ''/dev/stderr'' (Errno 5 ''input/output error''))\<rparr>)
        None ''text'')
   \<and> fst (Close_cli True (NewResponseEmitter None
        (Some \<lparr>is_file = True, write_error = None,
               sync_error = Some (PathError ''sync'' ''/dev/stderr'' (Errno 5 ''input/output error''))\<rparr>)
        None ''text''))
       = Ret (Some (PathError ''sync'' ''/dev/stderr'' (Errno 5 ''input/output error'')))"
  by (simp add: cli_defs NewResponseEmitter_def ignoreError_def EINVAL_def ENOTSUP_def)

text \<open>
  C2, amended. On a stream reached by any calls and not yet closed, \<^verbatim>\<open>CloseWithError\<close>
  (and \<^verbatim>\<open>Close\<close>, which is \<^verbatim>\<open>CloseWithError(nil)\<close>) returns nil and closes the stream
  without touching the values handed to the reader; after that, whatever calls follow,
  every \<^verbatim>\<open>Close\<close> and \<^verbatim>\<open>CloseWithError\<close> returns the error
  \<^verbatim>\<open>close of closed emitter\<close> and changes nothing. On a command-line emitter reached by
  any calls and not yet closed, with the receiver of the exit code waiting: \<^verbatim>\<open>Close\<close> and
  \<^verbatim>\<open>CloseWithError(nil)\<close> send the exit code, write nothing, close the emitter and return
  nil exactly when every sync error is tolerated, else the sync error; a
  \<^verbatim>\<open>CloseWithError(err)\<close> whose line is written to \<^verbatim>\<open>stderr\<close> prints that one line,
  sends the exit code 1, closes the emitter and returns the same; after either, whatever
  calls follow, every \<^verbatim>\<open>Close\<close> and \<^verbatim>\<open>CloseWithError\<close> returns its error
  (\<^verbatim>\<open>closing closed responseemitter\<close>, \<^verbatim>\<open>closing closed emitter\<close>), and neither the
  exit channel nor the output changes again.
\<close>

theorem Close_twice:
  assumes "\<not> closed (fold exec cs (NewChanResponsePair r))"
  shows "(let s = fold exec cs (NewChanResponsePair r);
              s1 = snd (CloseWithError e s);
              s2 = fold exec cs' s1
          in CloseWithError e s = (Ret None, s1) \<and> Close s = CloseWithError None s
             \<and> closed s1 \<and> pending (ch s1) = pending (ch s) \<and> sends (ch s1) = sends (ch s)
             \<and> CloseWithError e' s2 = (Ret (Some (ErrorString ''close of closed emitter'')), s2)
             \<and> Close s2 = (Ret (Some (ErrorString ''close of closed emitter'')), s2))
       \<and> (let re = fold exec_cli ds (NewResponseEmitter out errw en t);
               re1 = snd (Close_cli True re);
               re2 = fold exec_cli ds' re1
           in closed_cli re1 \<and> effects re2 = effects re1 \<and> ch_cli re2 = ch_cli re1
              \<and> Close_cli recv re2 = (Ret (Some (ErrorString ''closing closed responseemitter'')), re2)
              \<and> CloseWithError_cli (Some x) recv re2
                   = (Ret (Some (ErrorString ''closing closed emitter'')), re2))
       \<and> (let re = fold exec_cli ds (NewResponseEmitter out errw en t);
               re1 = snd (Close_cli True re);
               re2 = fold exec_cli ds' re1
           in \<not> closed_cli re \<longrightarrow>
              Close_cli True re = (Ret (sync_outcome re), re1)
              \<and> CloseWithError_cli None True re = Close_cli True re
              \<and> (sync_outcome re = None) = (tolerated (stderr re) \<and> tolerated (stdout re))
              \<and> closed_cli re1
              \<and> pending (ch_cli re1) = pending (ch_cli re) @ [exit re]
              \<and> effects re1 = effects re @ sync_effects Stderr (stderr re)
                    @ (if tolerated (stderr re) then sync_effects Stdout (stdout re) else [])
              \<and> effects re2 = effects re1 \<and> ch_cli re2 = ch_cli re1
              \<and> Close_cli recv re2 = (Ret (Some (ErrorString ''closing closed responseemitter'')), re2)
              \<and> CloseWithError_cli None recv re2
                   = (Ret (Some (ErrorString ''closing closed responseemitter'')), re2)
              \<and> CloseWithError_cli (Some y) recv re2
                   = (Ret (Some (ErrorString ''closing closed emitter'')), re2))
       \<and> (let re = fold exec_cli ds (NewResponseEmitter out errw en t);
               re3 = snd (CloseWithError_cli (Some x) True re);
               re4 = fold exec_cli ds' re3
           in \<forall>w. \<not> closed_cli re \<and> stderr re = Some w \<and> write_error w = None \<longrightarrow>
                CloseWithError_cli (Some x) True re = (Ret (sync_outcome re), re3)
                \<and> closed_cli re3 \<and> exit re3 = 1
                \<and> pending (ch_cli re3) = pending (ch_cli re) @ [1]
                \<and> effects re3 = effects re @ [Write Stderr (error_line x)]
                      @ sync_effects Stderr (stderr re)
                      @ (if tolerated (stderr re) then sync_effects Stdout (stdout re) else [])
                \<and> effects re4 = effects re3 \<and> ch_cli re4 = ch_cli re3
                \<and> Close_cli recv re4 = (Ret (Some (ErrorString ''closing closed responseemitter'')), re4)
                \<and> CloseWithError_cli None recv re4
                     = (Ret (Some (ErrorString ''closing closed responseemitter'')), re4)
                \<and> CloseWithError_cli (Some y) recv re4
                     = (Ret (Some (ErrorString ''closing closed emitter'')), re4))"
proof -
  define re where "re = fold exec_cli ds (NewResponseEmitter out errw en t)"
  define re1 where "re1 = snd (Close_cli True re)"
  define re2 where "re2 = fold exec_cli ds' re1"
  define re3 where "re3 = snd (CloseWithError_cli (Some x) True re)"
  define re4 where "re4 = fold exec_cli ds' re3"
  have inv: "cli_inv re" unfolding re_def by (rule fold_exec_cli_inv) (rule New_cli_inv)
  have c: "Close_cli True re = (Ret (sync_outcome re), re1)
              \<and> CloseWithError_cli None True re = Close_cli True re
              \<and> (sync_outcome re = None) = (tolerated (stderr re) \<and> tolerated (stdout re))
              \<and> closed_cli re1
              \<and> pending (ch_cli re1) = pending (ch_cli re) @ [exit re]
              \<and> effects re1 = effects re @ sync_effects Stderr (stderr re)
                    @ (if tolerated (stderr re) then sync_effects Stdout (stdout re) else [])
              \<and> effects re2 = effects re1 \<and> ch_cli re2 = ch_cli re1
              \<and> Close_cli recv re2 = (Ret (Some (ErrorString ''closing closed responseemitter'')), re2)
              \<and> CloseWithError_cli None recv re2
                   = (Ret (Some (ErrorString ''closing closed responseemitter'')), re2)
              \<and> CloseWithError_cli (Some y) recv re2
                   = (Ret (Some (ErrorString ''closing closed emitter'')), re2)"
    if op: "\<not> closed_cli re"
  proof -
    note k = Close_cli_open[OF op inv]
    have a: "Close_cli True re = (Ret (sync_outcome re), re1)"
      "CloseWithError_cli None True re = Close_cli True re" "closed_cli re1"
      "pending (ch_cli re1) = pending (ch_cli re) @ [exit re]"
      "effects re1 = effects re @ sync_effects Stderr (stderr re)
                    @ (if tolerated (stderr re) then sync_effects Stdout (stdout re) else [])"
      using k by (simp_all add: re1_def CloseWithError_cli_def)
    note b = closed_cli_rejects[OF a(3), of ds' recv y, folded re2_def]
    from a b sync_outcome_None[of re] show ?thesis by simp
  qed
  have d: "CloseWithError_cli (Some x) True re = (Ret (sync_outcome re), re3)
                \<and> closed_cli re3 \<and> exit re3 = 1
                \<and> pending (ch_cli re3) = pending (ch_cli re) @ [1]
                \<and> effects re3 = effects re @ [Write Stderr (error_line x)]
                      @ sync_effects Stderr (stderr re)
                      @ (if tolerated (stderr re) then sync_effects Stdout (stdout re) else [])
                \<and> effects re4 = effects re3 \<and> ch_cli re4 = ch_cli re3
                \<and> Close_cli recv re4 = (Ret (Some (ErrorString ''closing closed responseemitter'')), re4)
                \<and> CloseWithError_cli None recv re4
                     = (Ret (Some (ErrorString ''closing closed responseemitter'')), re4)
                \<and> CloseWithError_cli (Some y) recv re4
                     = (Ret (Some (ErrorString ''closing closed emitter'')), re4)"
    if w: "\<not> closed_cli re \<and> stderr re = Some w \<and> write_error w = None" for w
  proof -
    let ?rm = "re\<lparr>exit := 1, effects := effects re @ [Write Stderr (error_line x)]\<rparr>"
    from w have op: "\<not> closed_cli re" by simp
    have e1: "CloseWithError_cli (Some x) True re = Close_cli True ?rm"
      using CloseWithError_cli_open[OF op, of w x True] w by (simp add: Close_cli_def)
    have opm: "\<not> closed_cli ?rm" and invm: "cli_inv ?rm"
      using op inv by (simp_all add: cli_inv_def)
    have so: "sync_outcome ?rm = sync_outcome re" by (simp add: sync_outcome_def)
    note cm = Close_cli_open[OF opm invm]
    have f: "CloseWithError_cli (Some x) True re = (Ret (sync_outcome re), re3)" "closed_cli re3"
      "exit re3 = 1" "pending (ch_cli re3) = pending (ch_cli re) @ [1]"
      "effects re3 = effects re @ [Write Stderr (error_line x)]
                      @ sync_effects Stderr (stderr re)
                      @ (if tolerated (stderr re) then sync_effects Stdout (stdout re) else [])"
      using cm so by (simp_all add: re3_def e1)
    note g = closed_cli_rejects[OF f(2), of ds' recv y, folded re4_def]
    from f g show ?thesis by simp
  qed
  note st = close_then_rejected[OF assms(1), of e cs' e' ds out errw en t ds' recv x]
  have cli1: "(let re = fold exec_cli ds (NewResponseEmitter out errw en t);
               re1 = snd (Close_cli True re);
               re2 = fold exec_cli ds' re1
           in \<not> closed_cli re \<longrightarrow>
              Close_cli True re = (Ret (sync_outcome re), re1)
              \<and> CloseWithError_cli None True re = Close_cli True re
              \<and> (sync_outcome re = None) = (tolerated (stderr re) \<and> tolerated (stdout re))
              \<and> closed_cli re1
              \<and> pending (ch_cli re1) = pending (ch_cli re) @ [exit re]
              \<and> effects re1 = effects re @ sync_effects Stderr (stderr re)
                    @ (if tolerated (stderr re) then sync_effects Stdout (stdout re) else [])
              \<and> effects re2 = effects re1 \<and> ch_cli re2 = ch_cli re1
              \<and> Close_cli recv re2 = (Ret (Some (ErrorString ''closing closed responseemitter'')), re2)
              \<and> CloseWithError_cli None recv re2
                   = (Ret (Some (ErrorString ''closing closed responseemitter'')), re2)
              \<and> CloseWithError_cli (Some y) recv re2
                   = (Ret (Some (ErrorString ''closing closed emitter'')), re2))"
    unfolding Let_def re_def[symmetric] re1_def[symmetric] re2_def[symmetric]
    using c by blast
  have cli2: "(let re = fold exec_cli ds (NewResponseEmitter out errw en t);
               re3 = snd (CloseWithError_cli (Some x) True re);
               re4 = fold exec_cli ds' re3
           in \<forall>w. \<not> closed_cli re \<and> stderr re = Some w \<and> write_error w = None \<longrightarrow>
                CloseWithError_cli (Some x) True re = (Ret (sync_outcome re), re3)
                \<and> closed_cli re3 \<and> exit re3 = 1
                \<and> pending (ch_cli re3) = pending (ch_cli re) @ [1]
                \<and> effects re3 = effects re @ [Write Stderr (error_line x)]
                      @ sync_effects Stderr (stderr re)
                      @ (if tolerated (stderr re) then sync_effects Stdout (stdout re) else [])
                \<and> effects re4 = effects re3 \<and> ch_cli re4 = ch_cli re3
                \<and> Close_cli recv re4 = (Ret (Some (ErrorString ''closing closed responseemitter'')), re4)
                \<and> CloseWithError_cli None recv re4
                     = (Ret (Some (ErrorString ''closing closed responseemitter'')), re4)
                \<and> CloseWithError_cli (Some y) recv re4
                     = (Ret (Some (ErrorString ''closing closed emitter'')), re4))"
    unfolding Let_def re_def[symmetric] re3_def[symmetric] re4_def[symmetric]
    using d by blast
  from st cli1 cli2 show ?thesis by (intro conjI) (erule conjunct1, erule conjunct2, assumption+)
qed

theorem Close_twice_witness:
  "(let s = fold exec [CallSetLength 3, CallEmit (StrV ''a'') True PickComm, CallNext PickComm]
                 (NewChanResponsePair (Some (Request (Some Live))));
        s1 = snd (CloseWithError None s);
        re = fold exec_cli [CliEmit (StrV ''a'')]
               (NewResponseEmitter
                  (Some \<lparr>is_file = True, write_error = None,
                         sync_error = Some (PathError ''sync'' ''/dev/stdout''
                                              (Errno EINVAL ''invalid argument''))\<rparr>)
                  (Some \<lparr>is_file = False, write_error = None, sync_error = None\<rparr>) None ''text'');
        re1 = snd (Close_cli True re);
        re3 = snd (CloseWithError_cli (Some (ErrorString ''boom'')) True re)
    in \<not> closed s \<and> \<not> closed_cli re
       \<and> stderr re = Some \<lparr>is_file = False, write_error = None, sync_error = None\<rparr>
       \<and> CloseWithError None s = (Ret None, s1) \<and> closed s1
       \<and> Close s1 = (Ret (Some (ErrorString ''close of closed emitter'')), s1)
       \<and> Close_cli True re = (Ret None, re1) \<and> closed_cli re1
       \<and> Close_cli True re1 = (Ret (Some (ErrorString ''closing closed responseemitter'')), re1)
       \<and> CloseWithError_cli (Some (ErrorString ''again'')) True re1
            = (Ret (Some (ErrorString ''closing closed emitter'')), re1)
       \<and> CloseWithError_cli (Some (ErrorString ''boom'')) True re = (Ret None, re3)
       \<and> closed_cli re3 \<and> exit re3 = 1
       \<and> Close_cli True re3 = (Ret (Some (ErrorString ''closing closed responseemitter'')), re3))"
proof -
  define s where "s = fold exec [CallSetLength 3, CallEmit (StrV ''a'') True PickComm, CallNext PickComm]
                 (NewChanResponsePair (Some (Request (Some Live))))"
  define re where "re = fold exec_cli [CliEmit (StrV ''a'')]
               (NewResponseEmitter
                  (Some \<lparr>is_file = True, write_error = None,
                         sync_error = Some (PathError ''sync'' ''/dev/stdout''
                                              (Errno EINVAL ''invalid argument''))\<rparr>)
                  (Some \<lparr>is_file = False, write_error = None, sync_error = None\<rparr>) None ''text'')"
  define s1 where "s1 = snd (CloseWithError None s)"
  define re1 where "re1 = snd (Close_cli True re)"
  define re3 where "re3 = snd (CloseWithError_cli (Some (ErrorString ''boom'')) True re)"
  have h: "\<not> closed s"
    by (simp add: s_def stream_defs NewChanResponsePair_def SetLength_def Next_def)
  have k: "\<not> closed_cli re"
    "stderr re = Some \<lparr>is_file = False, write_error = None, sync_error = None\<rparr>"
    "stdout re = Some \<lparr>is_file = True, write_error = None,
                         sync_error = Some (PathError ''sync'' ''/dev/stdout''
                                              (Errno EINVAL ''invalid argument''))\<rparr>"
    by (simp_all add: re_def cli_defs NewResponseEmitter_def is_error_value_def)
  have so: "sync_outcome re = None"
    by (simp add: k sync_outcome_def tolerated_def file_sync_error_def ignoreError_def)
  have w: "\<not> closed_cli re \<and> stderr re = Some \<lparr>is_file = False, write_error = None, sync_error = None\<rparr>
      \<and> write_error \<lparr>is_file = False, write_error = None, sync_error = None\<rparr> = None"
    using k by simp
  note t = Close_twice [OF h [unfolded s_def], where e = None and cs' = "[]"
        and e' = None and ds = "[CliEmit (StrV ''a'')]"
        and out = "Some \<lparr>is_file = True, write_error = None,
                         sync_error = Some (PathError ''sync'' ''/dev/stdout''
                                              (Errno EINVAL ''invalid argument''))\<rparr>"
        and errw = "Some \<lparr>is_file = False, write_error = None, sync_error = None\<rparr>"
        and en = None and t = "''text''" and ds' = "[]"
        and recv = True and x = "ErrorString ''boom''" and y = "ErrorString ''again''",
        unfolded Let_def, folded s_def re_def, folded s1_def re1_def re3_def]
  from t h k so w show ?thesis
    unfolding Let_def s_def[symmetric] re_def[symmetric] s1_def[symmetric] re1_def[symmetric]
      re3_def[symmetric]
    by (simp add: Close_def)
qed

text \<open>
  C4, as the code behaves. \<^verbatim>\<open>Emit\<close> of the command-line emitter never changes
  \<^verbatim>\<open>closed\<close> nor the exit channel, for a \<^verbatim>\<open>Single\<close> as for any value. On a fresh
  emitter \<^verbatim>\<open>Emit(Single{"some value"})\<close> prints the value and leaves the emitter open, no
  exit code is reported, and the next \<^verbatim>\<open>Emit\<close> succeeds; on the stream the same
  \<^verbatim>\<open>Emit\<close> closes the stream and the next one fails with \<^verbatim>\<open>ErrClosedEmitter\<close>.
\<close>

theorem Single_leaves_cli_emitter_open:
  "closed_cli (snd (Emit_cli (Single x) re)) = closed_cli re
   \<and> ch_cli (snd (Emit_cli (Single x) re)) = ch_cli re
   \<and> (let re0 = NewResponseEmitter (Some \<lparr>is_file = True, write_error = None, sync_error = None\<rparr>)
                   (Some \<lparr>is_file = True, write_error = None, sync_error = None\<rparr>) None ''text'';
           re1 = snd (Emit_cli (Single (StrV ''some value'')) re0);
           s1 = snd (Emit (Single (StrV ''some value'')) True PickComm
                       (NewChanResponsePair (Some (Request (Some Live)))))
       in Emit_cli (Single (StrV ''some value'')) re0
            = (Ret None, re0\<lparr>effects := [Write Stdout (''some value'' @ [CHR 0x0A])]\<rparr>)
          \<and> \<not> closed_cli re1 \<and> pending (ch_cli re1) = []
          \<and> fst (Emit_cli (StrV ''more'') re1) = Ret None
          \<and> closed s1
          \<and> fst (Emit (StrV ''more'') True PickComm s1) = Ret (Some ErrClosedEmitter))"
proof -
  have "closed_cli (snd (Emit_cli (Single x) re)) = closed_cli re
   \<and> ch_cli (snd (Emit_cli (Single x) re)) = ch_cli re"
    by (rule Emit_cli_frame)
  moreover have "(let re0 = NewResponseEmitter (Some \<lparr>is_file = True, write_error = None, sync_error = None\<rparr>)
                   (Some \<lparr>is_file = True, write_error = None, sync_error = None\<rparr>) None ''text'';
           re1 = snd (Emit_cli (Single (StrV ''some value'')) re0);
           s1 = snd (Emit (Single (StrV ''some value'')) True PickComm
                       (NewChanResponsePair (Some (Request (Some Live)))))
       in Emit_cli (Single (StrV ''some value'')) re0
            = (Ret None, re0\<lparr>effects := [Write Stdout (''some value'' @ [CHR 0x0A])]\<rparr>)
          \<and> \<not> closed_cli re1 \<and> pending (ch_cli re1) = []
          \<and> fst (Emit_cli (StrV ''more'') re1) = Ret None
          \<and> closed s1
          \<and> fst (Emit (StrV ''more'') True PickComm s1) = Ret (Some ErrClosedEmitter))"
    by (simp add: cli_defs stream_defs NewResponseEmitter_def NewChanResponsePair_def)
  ultimately show ?thesis by blast
qed

text \<open>
  C5 fails as stated: on a closed stream and on a closed command-line emitter, \<^verbatim>\<open>Emit\<close>
  of an error value (for the command-line emitter also inside a \<^verbatim>\<open>Single\<close>) reaches the
  deprecated-error detection and panics; it does not fail with \<^verbatim>\<open>ErrClosedEmitter\<close>.
\<close>

theorem Emit_error_value_on_closed_counterexample:
  "closed (snd (Close (NewChanResponsePair (Some (Request (Some Live))))))
   \<and> fst (Emit (Err (ErrorString ''boom'')) True PickComm
             (snd (Close (NewChanResponsePair (Some (Request (Some Live)))))))
       = Panic ''AssertNotError''
   \<and> closed_cli (snd (Close_cli True (NewResponseEmitter None None None ''text'')))
   \<and> fst (Emit_cli (Single (Err (ErrorString ''boom'')))
             (snd (Close_cli True (NewResponseEmitter None None None ''text''))))
       = Panic ''AssertNotError''"
  by (simp add: cli_defs stream_defs NewResponseEmitter_def NewChanResponsePair_def)

text \<open>
  C5, amended. On a closed emitter \<^verbatim>\<open>Emit\<close> returns \<^verbatim>\<open>ErrClosedEmitter\<close> and sends,
  copies and encodes nothing, for every value that passes the steps the code runs before
  the closed check: on the stream a value that is no \<^verbatim>\<open>Single\<close>, no error and no
  channel (the state stays as it is, \<^verbatim>\<open>wait\<close> being closed already on a stream that
  calls have closed); on the command-line emitter a value that, unwrapped, is no error, no
  channel and no nil \<^verbatim>\<open>*string\<close> or \<^verbatim>\<open>*int\<close>.
\<close>

theorem Emit_on_closed_rejects:
  "(closed s \<and> plain v \<longrightarrow> Emit v peer pk s = (Ret (Some ErrClosedEmitter), s\<lparr>wait := True\<rparr>))
   \<and> (closed (fold exec cs (NewChanResponsePair r)) \<and> plain v \<longrightarrow>
        Emit v peer pk (fold exec cs (NewChanResponsePair r))
          = (Ret (Some ErrClosedEmitter), fold exec cs (NewChanResponsePair r)))
   \<and> (closed_cli re \<and> \<not> is_error_value (unwrap v) \<and> \<not> is_chan (unwrap v)
        \<and> \<not> nil_pointer (unwrap v) \<longrightarrow>
        Emit_cli v re = (Ret (Some ErrClosedEmitter), re))"
proof -
  have "wait (fold exec cs (NewChanResponsePair r))" if "closed (fold exec cs (NewChanResponsePair r))"
    using reachable_inv[of cs r] that by (auto simp: stream_inv_def)
  then show ?thesis
    by (auto simp del: Emit_cli.simps simp: Emit_closed_plain Emit_cli_closed_rejects)
qed

theorem Emit_on_closed_rejects_witness:
  "(closed (snd (Close (NewChanResponsePair None))) \<and> plain (StrV ''x'')
      \<and> Emit (StrV ''x'') False PickComm (snd (Close (NewChanResponsePair None)))
          = (Ret (Some ErrClosedEmitter), (snd (Close (NewChanResponsePair None)))\<lparr>wait := True\<rparr>))
   \<and> (closed (fold exec [CallClose] (NewChanResponsePair None)) \<and> plain (StrV ''x'')
      \<and> Emit (StrV ''x'') False PickComm (fold exec [CallClose] (NewChanResponsePair None))
          = (Ret (Some ErrClosedEmitter), fold exec [CallClose] (NewChanResponsePair None)))
   \<and> (closed_cli (snd (Close_cli True (NewResponseEmitter None None None ''text'')))
      \<and> \<not> is_error_value (unwrap (Single (Reader ''abc'' None)))
      \<and> \<not> is_chan (unwrap (Single (Reader ''abc'' None)))
      \<and> \<not> nil_pointer (unwrap (Single (Reader ''abc'' None)))
      \<and> Emit_cli (Single (Reader ''abc'' None)) (snd (Close_cli True (NewResponseEmitter None None None ''text'')))
          = (Ret (Some ErrClosedEmitter), snd (Close_cli True (NewResponseEmitter None None None ''text''))))"
proof -
  have a: "closed (snd (Close (NewChanResponsePair None))) \<and> plain (StrV ''x'')"
    by (simp add: stream_defs NewChanResponsePair_def plain_def is_chan_def)
  have b: "closed (fold exec [CallClose] (NewChanResponsePair None)) \<and> plain (StrV ''x'')"
    using a by simp
  have c: "closed_cli (snd (Close_cli True (NewResponseEmitter None None None ''text'')))
      \<and> \<not> is_error_value (unwrap (Single (Reader ''abc'' None)))
      \<and> \<not> is_chan (unwrap (Single (Reader ''abc'' None)))
      \<and> \<not> nil_pointer (unwrap (Single (Reader ''abc'' None)))"
    by (simp add: cli_defs NewResponseEmitter_def unwrap_def is_chan_def nil_pointer_def
        is_error_value_def)
  show ?thesis
    using a b c
      Emit_on_closed_rejects [of "snd (Close (NewChanResponsePair None))" "StrV ''x''" False PickComm]
      Emit_on_closed_rejects [of _ "StrV ''x''" False PickComm "[CallClose]" None]
      Emit_on_closed_rejects [of _ "Single (Reader ''abc'' None)" _ _ _ _
         "snd (Close_cli True (NewResponseEmitter None None None ''text''))"]
    by blast
qed

text \<open>
  C8 fails as stated for the command-line emitter: its \<^verbatim>\<open>SetLength\<close> records the length
  on a closed emitter too.
\<close>

theorem SetLength_cli_after_close_counterexample:
  "closed_cli (snd (Close_cli True (NewResponseEmitter None None None ''text'')))
   \<and> length_cli (snd (Close_cli True (NewResponseEmitter None None None ''text''))) = 0
   \<and> length_cli (SetLength_cli 5 (snd (Close_cli True (NewResponseEmitter None None None ''text'')))) = 5"
  by (simp add: cli_defs NewResponseEmitter_def)

text \<open>
  C8, amended. On a stream reached by any calls, \<^verbatim>\<open>SetLength\<close> changes nothing once a
  value was sent or the stream closed, it records the length only on a stream that has
  sent nothing and is not closed (it tests \<^verbatim>\<open>wait\<close>), \<^verbatim>\<open>Length\<close> blocks until
  \<^verbatim>\<open>wait\<close> is closed and from then on returns the length recorded at that moment,
  whatever calls follow, which is zero if \<^verbatim>\<open>SetLength\<close> was never called. The
  command-line emitter's \<^verbatim>\<open>SetLength\<close> records the length unconditionally.
\<close>

theorem SetLength_write_once:
  "(let s = fold exec cs (NewChanResponsePair r)
    in (0 < sends (ch s) \<or> closed s \<longrightarrow> SetLength l s = s)
       \<and> (lengthS (SetLength l s) \<noteq> lengthS s \<longrightarrow> sends (ch s) = 0 \<and> \<not> closed s)
       \<and> SetLength l s = (if wait s then s else s\<lparr>lengthS := l\<rparr>)
       \<and> Length s = (if wait s then Ret (lengthS s) else Blocked)
       \<and> (wait s \<longrightarrow> Length (fold exec cs' s) = Ret (lengthS s))
       \<and> ((\<forall>n. CallSetLength n \<notin> set cs) \<longrightarrow> lengthS s = 0))
   \<and> SetLength_cli l re = re\<lparr>length_cli := l\<rparr>"
proof -
  define s where "s = fold exec cs (NewChanResponsePair r)"
  have inv: "stream_inv s" unfolding s_def by (rule reachable_inv)
  have a: "SetLength l s = s" if "0 < sends (ch s) \<or> closed s"
  proof -
    have "wait s" using inv that by (auto simp: stream_inv_def)
    then show ?thesis by (simp add: SetLength_def)
  qed
  have b: "sends (ch s) = 0 \<and> \<not> closed s" if "lengthS (SetLength l s) \<noteq> lengthS s"
  proof -
    have "\<not> wait s" using that by (auto simp: SetLength_def split: if_splits)
    then show ?thesis using inv by (auto simp: stream_inv_def)
  qed
  have c: "SetLength l s = (if wait s then s else s\<lparr>lengthS := l\<rparr>)"
    by (simp add: SetLength_def)
  have d: "Length s = (if wait s then Ret (lengthS s) else Blocked)"
    by (simp add: Length_def)
  have e: "Length (fold exec cs' s) = Ret (lengthS s)" if "wait s"
    using fold_exec_wait[of s "lengthS s" cs'] that by (simp add: Length_def)
  have f: "lengthS s = 0" if "\<forall>n. CallSetLength n \<notin> set cs"
  proof -
    have "lengthS s = lengthS (NewChanResponsePair r)"
      unfolding s_def using that by (intro fold_exec_lengthS) simp
    then show ?thesis by (simp add: NewChanResponsePair_def)
  qed
  have g: "SetLength_cli l re = re\<lparr>length_cli := l\<rparr>"
    by (simp add: SetLength_cli_def)
  from a b c d e f g show ?thesis
    unfolding Let_def s_def[symmetric] by blast
qed

theorem SetLength_write_once_witness:
  "(let s = fold exec [CallEmit (StrV ''a'') True PickComm] (NewChanResponsePair (Some (Request (Some Live))))
    in 0 < sends (ch s) \<and> SetLength 5 s = s \<and> wait s
       \<and> Length (fold exec [CallSetLength 9] s) = Ret (lengthS s) \<and> lengthS s = 0)
   \<and> (let s = fold exec [] (NewChanResponsePair (Some (Request (Some Live))))
       in lengthS (SetLength 5 s) \<noteq> lengthS s \<and> sends (ch s) = 0 \<and> \<not> closed s
          \<and> Length s = Blocked)"
proof -
  define s where "s = fold exec [CallEmit (StrV ''a'') True PickComm] (NewChanResponsePair (Some (Request (Some Live))))"
  define s0 where "s0 = fold exec [] (NewChanResponsePair (Some (Request (Some Live))))"
  have a: "0 < sends (ch s)" "wait s" "\<forall>n. CallSetLength n \<notin> set [CallEmit (StrV ''a'') True PickComm]"
    by (simp_all add: s_def stream_defs NewChanResponsePair_def)
  have b: "lengthS (SetLength 5 s0) \<noteq> lengthS s0" "\<not> wait s0"
    by (simp_all add: s0_def SetLength_def NewChanResponsePair_def)
  note t1 = SetLength_write_once [where cs = "[CallEmit (StrV ''a'') True PickComm]"
      and r = "Some (Request (Some Live))" and l = 5 and cs' = "[CallSetLength 9]",
      unfolded Let_def s_def[symmetric]]
  note t2 = SetLength_write_once [where cs = "[]" and r = "Some (Request (Some Live))" and l = 5,
      unfolded Let_def s0_def[symmetric]]
  from a t1 have c: "SetLength 5 s = s \<and> Length (fold exec [CallSetLength 9] s) = Ret (lengthS s)
      \<and> lengthS s = 0" by blast
  from b t2 have d: "sends (ch s0) = 0 \<and> \<not> closed s0 \<and> Length s0 = Blocked" by simp
  from a b c d show ?thesis
    unfolding Let_def s_def[symmetric] s0_def[symmetric] by blast
qed

text \<open>
  C9. \<^verbatim>\<open>close\<close> on an open emitter, with the receiver of the exit code waiting: it
  sends the exit code once and closes the channel, syncs \<^verbatim>\<open>stderr\<close> if it is a file
  and then \<^verbatim>\<open>stdout\<close> if it is a file, and marks the emitter closed. A sync error is
  tolerated exactly when it is a \<^verbatim>\<open>*os.PathError\<close> of the operation \<^verbatim>\<open>sync\<close> with
  \<^verbatim>\<open>EINVAL\<close> or \<^verbatim>\<open>ENOTSUP\<close>; if every sync error is tolerated \<^verbatim>\<open>close\<close> returns nil,
  and whenever it returns nil both sinks that are files were synced. Any other sync
  error is returned, that of \<^verbatim>\<open>stderr\<close> before \<^verbatim>\<open>stdout\<close> is touched. Whatever calls
  follow, nothing more is sent on the exit channel, no sink is synced or written again,
  and \<^verbatim>\<open>close\<close> returns its error.
\<close>

theorem close_syncs_and_reports_once:
  assumes "\<not> closed_cli re" and "\<not> chan_closed (ch_cli re)"
  shows "\<exists>r re'. close_cli True re = (Ret r, re') \<and> closed_cli re'
      \<and> pending (ch_cli re') = pending (ch_cli re) @ [exit re]
      \<and> sends (ch_cli re') = Suc (sends (ch_cli re)) \<and> chan_closed (ch_cli re')
      \<and> effects re' = effects re @ sync_effects Stderr (stderr re)
                         @ (if tolerated (stderr re) then sync_effects Stdout (stdout re) else [])
      \<and> r = (if tolerated (stderr re)
              then (if tolerated (stdout re) then None else file_sync_error (stdout re))
              else file_sync_error (stderr re))
      \<and> (tolerated (stderr re) \<and> tolerated (stdout re) \<longrightarrow> r = None)
      \<and> (r = None \<longrightarrow> effects re' = effects re @ sync_effects Stderr (stderr re)
                                         @ sync_effects Stdout (stdout re))
      \<and> (tolerated w = (case file_sync_error w of
                           None \<Rightarrow> True
                         | Some e \<Rightarrow> \<exists>path n txt. e = PathError ''sync'' path (Errno n txt)
                                                  \<and> (n = EINVAL \<or> n = ENOTSUP)))
      \<and> ch_cli (fold exec_cli cs re') = ch_cli re'
      \<and> effects (fold exec_cli cs re') = effects re'
      \<and> close_cli recv (fold exec_cli cs re')
           = (Ret (Some (ErrorString ''closing closed responseemitter'')), fold exec_cli cs re')"
proof -
  define r where "r = (if tolerated (stderr re)
              then (if tolerated (stdout re) then None else file_sync_error (stdout re))
              else file_sync_error (stderr re))"
  define re' where "re' = snd (close_cli True re)"
  note c = close_cli_open[OF assms]
  have a: "close_cli True re = (Ret r, re')" using c by (simp add: r_def re'_def)
  have b: "closed_cli re'" "pending (ch_cli re') = pending (ch_cli re) @ [exit re]"
    "sends (ch_cli re') = Suc (sends (ch_cli re))" "chan_closed (ch_cli re')"
    "effects re' = effects re @ sync_effects Stderr (stderr re)
                         @ (if tolerated (stderr re) then sync_effects Stdout (stdout re) else [])"
    using c by (simp_all add: re'_def)
  have d: "r = None" if "tolerated (stderr re) \<and> tolerated (stdout re)"
    using that by (simp add: r_def)
  have e: "effects re' = effects re @ sync_effects Stderr (stderr re) @ sync_effects Stdout (stdout re)"
    if "r = None"
  proof (cases "tolerated (stderr re)")
    case True
    then show ?thesis using b(5) by simp
  next
    case False
    then have "file_sync_error (stderr re) = None" using that by (simp add: r_def)
    then have "tolerated (stderr re)" by (simp add: tolerated_def)
    with False show ?thesis by simp
  qed
  have f: "tolerated w = (case file_sync_error w of
                           None \<Rightarrow> True
                         | Some e \<Rightarrow> \<exists>path n txt. e = PathError ''sync'' path (Errno n txt)
                                                  \<and> (n = EINVAL \<or> n = ENOTSUP))"
    by (simp add: tolerated_def ignoreError_iff split: option.splits)
  have "frozen re' (fold exec_cli cs re')" using b(1) by (rule fold_exec_cli_closed)
  then have g: "ch_cli (fold exec_cli cs re') = ch_cli re'"
    "effects (fold exec_cli cs re') = effects re'" "closed_cli (fold exec_cli cs re')"
    by (simp_all add: frozen_def)
  have h: "close_cli recv (fold exec_cli cs re')
           = (Ret (Some (ErrorString ''closing closed responseemitter'')), fold exec_cli cs re')"
    using g(3) by (rule close_cli_closed)
  have i: "r = (if tolerated (stderr re)
              then (if tolerated (stdout re) then None else file_sync_error (stdout re))
              else file_sync_error (stderr re))" by (simp add: r_def)
  from a b d e f g(1,2) h i show ?thesis by blast
qed

theorem close_syncs_and_reports_once_witness:
  "(let re = (NewResponseEmitter
                 (Some \<lparr>is_file = True, write_error = None,
                        sync_error = Some (PathError ''sync'' ''/dev/stdout''
                                             (Errno EINVAL ''invalid argument''))\<rparr>)
                 (Some \<lparr>is_file = True, write_error = None, sync_error = None\<rparr>) None ''text'')
                \<lparr>exit := 3\<rparr>
    in \<not> closed_cli re \<and> \<not> chan_closed (ch_cli re)
       \<and> (\<exists>re'. close_cli True re = (Ret None, re') \<and> closed_cli re'
             \<and> pending (ch_cli re') = [3] \<and> sends (ch_cli re') = 1 \<and> chan_closed (ch_cli re')
             \<and> effects re' = [Sync Stderr, Sync Stdout]
             \<and> ch_cli (fold exec_cli [CliExit 7 True, CliClose True] re') = ch_cli re'
             \<and> effects (fold exec_cli [CliExit 7 True, CliClose True] re') = effects re'))"
proof -
  define re where "re = (NewResponseEmitter
                 (Some \<lparr>is_file = True, write_error = None,
                        sync_error = Some (PathError ''sync'' ''/dev/stdout''
                                             (Errno EINVAL ''invalid argument''))\<rparr>)
                 (Some \<lparr>is_file = True, write_error = None, sync_error = None\<rparr>) None ''text'')
                \<lparr>exit := 3\<rparr>"
  have h1: "\<not> closed_cli re" and h2: "\<not> chan_closed (ch_cli re)"
    by (simp_all add: re_def NewResponseEmitter_def)
  have t: "tolerated (stderr re)" "tolerated (stdout re)"
    "sync_effects Stderr (stderr re) = [Sync Stderr]" "sync_effects Stdout (stdout re) = [Sync Stdout]"
    "effects re = []" "pending (ch_cli re) = []" "sends (ch_cli re) = 0" "exit re = 3"
    by (simp_all add: re_def NewResponseEmitter_def tolerated_def file_sync_error_def
        ignoreError_def EINVAL_def sync_effects_def)
  from close_syncs_and_reports_once [OF h1 h2, where cs = "[CliExit 7 True, CliClose True]"]
  obtain r re' where c: "close_cli True re = (Ret r, re')" "closed_cli re'"
      "pending (ch_cli re') = pending (ch_cli re) @ [exit re]"
      "sends (ch_cli re') = Suc (sends (ch_cli re))" "chan_closed (ch_cli re')"
      "effects re' = effects re @ sync_effects Stderr (stderr re)
                         @ (if tolerated (stderr re) then sync_effects Stdout (stdout re) else [])"
      "tolerated (stderr re) \<and> tolerated (stdout re) \<longrightarrow> r = None"
      "ch_cli (fold exec_cli [CliExit 7 True, CliClose True] re') = ch_cli re'"
      "effects (fold exec_cli [CliExit 7 True, CliClose True] re') = effects re'"
    by blast
  have "close_cli True re = (Ret None, re') \<and> closed_cli re'
             \<and> pending (ch_cli re') = [3] \<and> sends (ch_cli re') = 1 \<and> chan_closed (ch_cli re')
             \<and> effects re' = [Sync Stderr, Sync Stdout]
             \<and> ch_cli (fold exec_cli [CliExit 7 True, CliClose True] re') = ch_cli re'
             \<and> effects (fold exec_cli [CliExit 7 True, CliClose True] re') = effects re'"
    using c t by simp
  then show ?thesis
    unfolding Let_def re_def[symmetric] using h1 h2 by blast
qed

text \<open>
  C10. A \<^verbatim>\<open>Close\<close> or \<^verbatim>\<open>Exit\<close> that returns on an open emitter, and a
  \<^verbatim>\<open>CloseWithError\<close> that returns nil, leave \<^verbatim>\<open>Stdout()\<close> and \<^verbatim>\<open>Stderr()\<close> nil, and
  they stay nil whatever calls follow. The close path keeps the encoder and the exit
  code it found: the one set before for \<^verbatim>\<open>Close\<close>, 1 for \<^verbatim>\<open>CloseWithError\<close> with an
  error, the argument for \<^verbatim>\<open>Exit\<close>.
\<close>

theorem close_detaches_sinks:
  assumes "\<not> closed_cli re"
  shows "(Close_cli recv re = (Ret r, re1) \<longrightarrow>
            Stdout_cli re1 = None \<and> Stderr_cli re1 = None \<and> closed_cli re1
            \<and> exit re1 = exit re \<and> enc re1 = enc re
            \<and> Stdout_cli (fold exec_cli cs re1) = None \<and> Stderr_cli (fold exec_cli cs re1) = None)
       \<and> (CloseWithError_cli e recv re = (Ret None, re2) \<longrightarrow>
            Stdout_cli re2 = None \<and> Stderr_cli re2 = None \<and> closed_cli re2
            \<and> exit re2 = (case e of None \<Rightarrow> exit re | Some x \<Rightarrow> 1) \<and> enc re2 = enc re
            \<and> Stdout_cli (fold exec_cli cs re2) = None \<and> Stderr_cli (fold exec_cli cs re2) = None)
       \<and> (Exit_cli code recv re = (Ret u, re3) \<longrightarrow>
            Stdout_cli re3 = None \<and> Stderr_cli re3 = None \<and> closed_cli re3
            \<and> exit re3 = code \<and> enc re3 = enc re
            \<and> Stdout_cli (fold exec_cli cs re3) = None \<and> Stderr_cli (fold exec_cli cs re3) = None)"
proof -
  have stay: "Stdout_cli (fold exec_cli cs x) = None \<and> Stderr_cli (fold exec_cli cs x) = None"
    if "closed_cli x" "stdout x = None" "stderr x = None" for x
    using fold_exec_cli_closed[OF that(1), of cs] that(2,3)
    by (simp add: frozen_def Stdout_cli_def Stderr_cli_def)
  have a: "Stdout_cli re1 = None \<and> Stderr_cli re1 = None \<and> closed_cli re1
            \<and> exit re1 = exit re \<and> enc re1 = enc re
            \<and> Stdout_cli (fold exec_cli cs re1) = None \<and> Stderr_cli (fold exec_cli cs re1) = None"
    if "Close_cli recv re = (Ret r, re1)"
  proof -
    from that have "close_cli recv re = (Ret r, re1)" by (simp add: Close_cli_def)
    note d = close_cli_detaches[OF assms this]
    with stay[of re1] show ?thesis by (simp add: Stdout_cli_def Stderr_cli_def)
  qed
  have b: "Stdout_cli re2 = None \<and> Stderr_cli re2 = None \<and> closed_cli re2
            \<and> exit re2 = (case e of None \<Rightarrow> exit re | Some x \<Rightarrow> 1) \<and> enc re2 = enc re
            \<and> Stdout_cli (fold exec_cli cs re2) = None \<and> Stderr_cli (fold exec_cli cs re2) = None"
    if h: "CloseWithError_cli e recv re = (Ret None, re2)"
  proof (cases e)
    case None
    with h have "close_cli recv re = (Ret None, re2)" by (simp add: CloseWithError_cli_def Close_cli_def)
    note d = close_cli_detaches[OF assms this]
    with stay[of re2] None show ?thesis by (simp add: Stdout_cli_def Stderr_cli_def)
  next
    case (Some x)
    define m where "m = (case x of CmdkitErrorPtr m' \<Rightarrow> m' | _ \<Rightarrow> error_message x)"
    from h Some assms obtain rm where
      f: "Fprintln Stderr (stderr re) (''Error: '' @ m) (re\<lparr>exit := 1\<rparr>) = (Ret None, rm)"
      and c: "close_cli recv rm = (Ret None, re2)"
      by (auto simp: CloseWithError_cli_def Let_def m_def
          split: prod.splits outcome.splits option.splits)
    from f have k: "\<not> closed_cli rm" "exit rm = 1" "enc rm = enc re"
      using assms by (auto simp: Fprintln_def split: option.splits)
    note d = close_cli_detaches[OF k(1) c]
    with stay[of re2] Some k show ?thesis by (simp add: Stdout_cli_def Stderr_cli_def)
  qed
  have c: "Stdout_cli re3 = None \<and> Stderr_cli re3 = None \<and> closed_cli re3
            \<and> exit re3 = code \<and> enc re3 = enc re
            \<and> Stdout_cli (fold exec_cli cs re3) = None \<and> Stderr_cli (fold exec_cli cs re3) = None"
    if h: "Exit_cli code recv re = (Ret u, re3)"
  proof -
    from h obtain r' where "close_cli recv (re\<lparr>exit := code\<rparr>) = (Ret r', re3)"
      by (auto simp: Exit_cli_def Close_cli_def split: prod.splits outcome.splits)
    moreover have "\<not> closed_cli (re\<lparr>exit := code\<rparr>)" using assms by simp
    ultimately have d: "stdout re3 = None \<and> stderr re3 = None \<and> closed_cli re3
        \<and> exit re3 = exit (re\<lparr>exit := code\<rparr>) \<and> enc re3 = enc (re\<lparr>exit := code\<rparr>)"
      using close_cli_detaches[of "re\<lparr>exit := code\<rparr>" recv r' re3] by blast
    with stay[of re3] show ?thesis by (simp add: Stdout_cli_def Stderr_cli_def)
  qed
  from a b c show ?thesis by blast
qed

theorem close_detaches_sinks_witness:
  "(let re = NewResponseEmitter (Some \<lparr>is_file = True, write_error = None, sync_error = None\<rparr>)
                (Some \<lparr>is_file = False, write_error = None, sync_error = None\<rparr>) None ''text'';
        re1 = snd (Close_cli True re);
        re2 = snd (CloseWithError_cli (Some (ErrorString ''boom'')) True re);
        re3 = snd (Exit_cli 2 True re)
    in \<not> closed_cli re \<and> Stdout_cli re \<noteq> None \<and> Stderr_cli re \<noteq> None
       \<and> Close_cli True re = (Ret None, re1)
       \<and> Stdout_cli re1 = None \<and> Stderr_cli re1 = None \<and> exit re1 = 0 \<and> enc re1 = enc re
       \<and> Stdout_cli (fold exec_cli [CliEmit (StrV ''late'')] re1) = None
       \<and> CloseWithError_cli (Some (ErrorString ''boom'')) True re = (Ret None, re2)
       \<and> Stdout_cli re2 = None \<and> Stderr_cli re2 = None \<and> exit re2 = 1 \<and> enc re2 = enc re
       \<and> Exit_cli 2 True re = (Ret (), re3)
       \<and> Stdout_cli re3 = None \<and> Stderr_cli re3 = None \<and> exit re3 = 2 \<and> enc re3 = enc re)"
proof -
  define re where "re = NewResponseEmitter (Some \<lparr>is_file = True, write_error = None, sync_error = None\<rparr>)
                (Some \<lparr>is_file = False, write_error = None, sync_error = None\<rparr>) None ''text''"
  define re1 where "re1 = snd (Close_cli True re)"
  define re2 where "re2 = snd (CloseWithError_cli (Some (ErrorString ''boom'')) True re)"
  define re3 where "re3 = snd (Exit_cli 2 True re)"
  have h0: "\<not> closed_cli re" and s0: "Stdout_cli re \<noteq> None" "Stderr_cli re \<noteq> None" "exit re = 0"
    by (simp_all add: re_def NewResponseEmitter_def Stdout_cli_def Stderr_cli_def)
  have h1: "Close_cli True re = (Ret None, re1)"
    unfolding re1_def by (simp add: re_def NewResponseEmitter_def cli_defs)
  have h2: "CloseWithError_cli (Some (ErrorString ''boom'')) True re = (Ret None, re2)"
    unfolding re2_def by (simp add: re_def NewResponseEmitter_def cli_defs)
  have h3: "Exit_cli 2 True re = (Ret (), re3)"
    unfolding re3_def by (simp add: re_def NewResponseEmitter_def cli_defs)
  note t = close_detaches_sinks [OF h0, where recv = True and r = None and ?re1.0 = re1
      and cs = "[CliEmit (StrV ''late'')]" and e = "Some (ErrorString ''boom'')" and ?re2.0 = re2
      and code = 2 and u = "()" and ?re3.0 = re3]
  from t h0 s0 h1 h2 h3 show ?thesis
    unfolding Let_def re_def[symmetric] re1_def[symmetric] re2_def[symmetric] re3_def[symmetric]
    by simp
qed

end
